theory Spec2Isabelle
  imports Complex_Main
begin

section \<open>Wythoff construction of uniform polytopes (polytopes/models.py)\<close>

text \<open>
  The development embeds the classes \<open>BasePolytope\<close>, \<open>Polyhedra\<close>, \<open>Snub\<close> and
  \<open>Polychora\<close> of \<open>src/polytopes/models.py\<close>. Exceptions are values of a sum type,
  attribute mutation is explicit state passing on a record, loops are recursive functions.
\<close>

subsection \<open>Errors, indexing and sequencing\<close>

datatype error = ValueError | IndexError | TypeError | AttributeError | KeyError | EnumerationError

type_synonym word = "nat list"

text \<open>Python's \<open>xs[i]\<close> for a non-negative index: out of range raises IndexError.\<close>

definition getitem :: "'a list \<Rightarrow> nat \<Rightarrow> error + 'a" where
  "getitem xs i = (if i < length xs then Inr (xs ! i) else Inl IndexError)"

text \<open>Sequencing of two steps, the first of which may raise.\<close>

definition bind :: "error + 'a \<Rightarrow> ('a \<Rightarrow> error + 'b) \<Rightarrow> error + 'b" where
  "bind m f = (case m of Inl e \<Rightarrow> Inl e | Inr x \<Rightarrow> f x)"

text \<open>A comprehension \<open>[f(x) for x in xs]\<close> whose body may raise: left to right, first error wins.\<close>

fun mapM :: "('a \<Rightarrow> error + 'b) \<Rightarrow> 'a list \<Rightarrow> error + 'b list" where
  "mapM f [] = Inr []"
| "mapM f (x # xs) = bind (f x) (\<lambda>y. bind (mapM f xs) (\<lambda>ys. Inr (y # ys)))"

text \<open>\<open>word * m\<close> on tuples: the word repeated \<open>m\<close> times, empty when \<open>m \<le> 0\<close>.\<close>

definition tuple_mul :: "word \<Rightarrow> int \<Rightarrow> word" where
  "tuple_mul w m = concat (replicate (nat m) w)"

text \<open>\<open>itertools.combinations(xs, 2)\<close>: pairs of positions \<open>a < b\<close>, in lexicographic order.\<close>

fun combinations2 :: "'a list \<Rightarrow> ('a \<times> 'a) list" where
  "combinations2 [] = []"
| "combinations2 (x # xs) = map (Pair x) xs @ combinations2 xs"

subsection \<open>External collaborators\<close>

text \<open>
  The modules \<open>todd_coxeter\<close> and \<open>helpers\<close> and the library \<open>numpy\<close> are not part of
  \<open>models.py\<close>; what the code calls in them is a parameter of the model. A coset table
  object is indexed as \<open>table[coset][generator]\<close> and yields its words by \<open>get_words()\<close>.
  An omitted keyword argument of \<open>CosetTable\<close> is \<open>None\<close>.
\<close>

record coset_table =
  ct_rows :: "nat list list"
  ct_words :: "word list"

record ('v, 'm) env =
  np_dot :: "'v \<Rightarrow> 'm \<Rightarrow> 'v"
  get_coxeter_matrix :: "int list \<Rightarrow> int list list"
  get_mirrors :: "int list \<Rightarrow> 'v list"
  reflection_matrix :: "'v \<Rightarrow> 'm"
  get_init_point :: "'v list \<Rightarrow> real list \<Rightarrow> 'v"
  CosetTable :: "nat list \<Rightarrow> word list \<Rightarrow> word list option \<Rightarrow> bool option \<Rightarrow> error + coset_table"

subsection \<open>The polytope object\<close>

record ('v, 'm) polytope =
  coxeter_matrix :: "int list list"
  mirrors :: "'v list"
  reflections :: "'m list"
  init_v :: "'v"
  active :: "bool list"
  symmetry_gens :: "nat list"
  symmetry_rels :: "word list"
  vtable :: "nat list list option"
  vwords :: "word list option"
  num_vertices :: "nat option"
  vertex_coords :: "'v list"
  num_edges :: "nat option"
  edge_indices :: "(nat \<times> nat) list list"
  edge_coords :: "('v \<times> 'v) list list"
  num_faces :: "nat option"
  face_indices :: "nat list list list"
  face_coords :: "'v list list list"
  rotations :: "(word \<times> int) list option"

text \<open>\<open>self.coxeter_matrix[i][j]\<close>\<close>

definition cox :: "int list list \<Rightarrow> nat \<Rightarrow> nat \<Rightarrow> error + int" where
  "cox cm i j = bind (getitem cm i) (\<lambda>row. getitem row j)"

text \<open>
  \<open>BasePolytope.__init__\<close>. The attributes \<open>_vwords\<close> and \<open>rotations\<close> are not assigned
  there; \<open>None\<close> stands for the missing attribute (\<open>rotations\<close> exists on \<open>Snub\<close> objects
  only, as a dict kept in insertion order).
\<close>

definition BasePolytope_init ::
  "('v, 'm) env \<Rightarrow> int list \<Rightarrow> real list \<Rightarrow> error + ('v, 'm) polytope" where
  "BasePolytope_init env upper_triangle init_dist =
    (let cm = get_coxeter_matrix env upper_triangle;
         ms = get_mirrors env upper_triangle;
         dim = length cm;
         gens = [0..<dim]
     in bind (mapM (\<lambda>(i, j). bind (cox cm i j) (\<lambda>m. Inr (tuple_mul [i, j] m)))
               (combinations2 gens))
          (\<lambda>rels. Inr \<lparr> coxeter_matrix = cm,
                         mirrors = ms,
                         reflections = map (reflection_matrix env) ms,
                         init_v = get_init_point env ms init_dist,
                         active = map (\<lambda>x. x \<noteq> 0) init_dist,
                         symmetry_gens = gens,
                         symmetry_rels = rels,
                         vtable = None,
                         vwords = None,
                         num_vertices = None,
                         vertex_coords = [],
                         num_edges = None,
                         edge_indices = [],
                         edge_coords = [],
                         num_faces = None,
                         face_indices = [],
                         face_coords = [],
                         rotations = None \<rparr>))"

text \<open>\<open>BasePolytope._transform\<close>: \<open>vector = np.dot(vector, self._reflections[w])\<close> for each letter.\<close>

fun transform :: "('v, 'm) env \<Rightarrow> 'm list \<Rightarrow> 'v \<Rightarrow> word \<Rightarrow> error + 'v" where
  "transform env R v [] = Inr v"
| "transform env R v (w # ws) =
     bind (getitem R w) (\<lambda>M. transform env R (np_dot env v M) ws)"

text \<open>\<open>BasePolytope._move\<close>: \<open>vertex = self._vtable[vertex][w]\<close> for each letter.\<close>

fun move :: "nat list list option \<Rightarrow> nat \<Rightarrow> word \<Rightarrow> error + nat" where
  "move vt v [] = Inr v"
| "move vt v (w # ws) =
     (case vt of
        None \<Rightarrow> Inl TypeError
      | Some rows \<Rightarrow> bind (getitem rows v) (\<lambda>row. bind (getitem row w) (\<lambda>v'. move vt v' ws)))"

text \<open>The generators of the stabilizer of the initial vertex in \<open>get_vertices\<close>.\<close>

definition vgens :: "bool list \<Rightarrow> word list" where
  "vgens act = map (\<lambda>(i, a). [i]) (filter (\<lambda>(i, a). \<not> a) (enumerate 0 act))"

text \<open>\<open>BasePolytope.get_vertices\<close>\<close>

definition get_vertices :: "('v, 'm) env \<Rightarrow> ('v, 'm) polytope \<Rightarrow> error + ('v, 'm) polytope" where
  "get_vertices env st =
     bind (CosetTable env (symmetry_gens st) (symmetry_rels st) (Some (vgens (active st))) None)
       (\<lambda>ct. bind (mapM (transform env (reflections st) (init_v st)) (ct_words ct))
         (\<lambda>coords. Inr (st\<lparr> vtable := Some (ct_rows ct),
                              vwords := Some (ct_words ct),
                              num_vertices := Some (length (ct_words ct)),
                              vertex_coords := coords \<rparr>)))"

text \<open>\<open>a and b\<close> on conditions that may raise: \<open>b\<close> is evaluated only when \<open>a\<close> is true.\<close>

definition py_and :: "error + bool \<Rightarrow> error + bool \<Rightarrow> error + bool" where
  "py_and a b = bind a (\<lambda>x. if x then b else Inr False)"

text \<open>\<open>[(self.vertex_coords[x], self.vertex_coords[y]) for x, y in elist]\<close>\<close>

definition edge_coords_of :: "'v list \<Rightarrow> (nat \<times> nat) list \<Rightarrow> error + ('v \<times> 'v) list" where
  "edge_coords_of vc elist =
     mapM (\<lambda>(x, y). bind (getitem vc x) (\<lambda>cx. bind (getitem vc y) (\<lambda>cy. Inr (cx, cy)))) elist"

text \<open>\<open>[tuple(self.vertex_coords[x] for x in face) for face in flist]\<close>\<close>

definition face_coords_of :: "'v list \<Rightarrow> nat list list \<Rightarrow> error + 'v list list" where
  "face_coords_of vc flist = mapM (mapM (getitem vc)) flist"

text \<open>The avoid-duplicates step of both edge builders.\<close>

definition add_edge :: "(nat \<times> nat) list \<Rightarrow> nat \<times> nat \<Rightarrow> (nat \<times> nat) list" where
  "add_edge elist e =
     (if e \<notin> set elist \<and> (snd e, fst e) \<notin> set elist then elist @ [e] else elist)"

text \<open>The loop \<open>for word in words\<close> of \<open>BasePolytope.get_edges\<close>, for the mirror \<open>i\<close>.\<close>

fun edge_loop :: "nat list list option \<Rightarrow> nat \<Rightarrow> word list \<Rightarrow> (nat \<times> nat) list
                   \<Rightarrow> error + (nat \<times> nat) list" where
  "edge_loop vt i [] elist = Inr elist"
| "edge_loop vt i (w # ws) elist =
     bind (move vt 0 w) (\<lambda>v1.
     bind (move vt 0 (i # w)) (\<lambda>v2.
       edge_loop vt i ws (add_edge elist (v1, v2))))"

text \<open>The loop \<open>for i, active in enumerate(self.active)\<close> of \<open>BasePolytope.get_edges\<close>.\<close>

fun get_edges_loop :: "('v, 'm) env \<Rightarrow> (nat \<times> bool) list \<Rightarrow> ('v, 'm) polytope
                        \<Rightarrow> error + ('v, 'm) polytope" where
  "get_edges_loop env [] st = Inr st"
| "get_edges_loop env ((i, a) # rest) st =
     (if a then
        bind (CosetTable env (symmetry_gens st) (symmetry_rels st) (Some [[i]]) None) (\<lambda>etable.
        bind (edge_loop (vtable st) i (ct_words etable) []) (\<lambda>elist.
        bind (edge_coords_of (vertex_coords st) elist) (\<lambda>ecoords.
          get_edges_loop env rest
            (st\<lparr> edge_indices := edge_indices st @ [elist],
                 edge_coords := edge_coords st @ [ecoords] \<rparr>))))
      else get_edges_loop env rest st)"

definition get_edges :: "('v, 'm) env \<Rightarrow> ('v, 'm) polytope \<Rightarrow> error + ('v, 'm) polytope" where
  "get_edges env st =
     bind (get_edges_loop env (enumerate 0 (active st)) st)
       (\<lambda>st'. Inr (st'\<lparr> num_edges := Some (sum_list (map length (edge_indices st'))) \<rparr>))"

subsection \<open>Faces\<close>

text \<open>
  Modelled from the spec: \<open>helpers.check_duplicate_face\<close> is not in \<open>models.py\<close>. The spec
  says that a candidate is a duplicate when it matches an already collected face up to
  cyclic rotation and reversal of the sequence.
\<close>

definition same_cycle :: "nat list \<Rightarrow> nat list \<Rightarrow> bool" where
  "same_cycle f g = (\<exists>k \<in> set [0..<Suc (length f)]. g = rotate k f \<or> g = rotate k (rev f))"

definition check_duplicate_face :: "nat list \<Rightarrow> nat list list \<Rightarrow> bool" where
  "check_duplicate_face f flist = (\<exists>g \<in> set flist. same_cycle f g)"

text \<open>The base face when both mirrors are active: two entries for each \<open>k in range(m)\<close>.\<close>

definition f0_both :: "nat list list option \<Rightarrow> nat \<Rightarrow> nat \<Rightarrow> int \<Rightarrow> error + nat list" where
  "f0_both vt i j m =
     bind (mapM (\<lambda>k. bind (move vt 0 (tuple_mul [i, j] (int k))) (\<lambda>a.
                      bind (move vt 0 (j # tuple_mul [i, j] (int k))) (\<lambda>b. Inr [a, b])))
             [0..<nat m])
       (\<lambda>ps. Inr (concat ps))"

text \<open>The base face when one mirror is active: one entry for each \<open>k in range(m)\<close>.\<close>

definition f0_one :: "nat list list option \<Rightarrow> nat \<Rightarrow> nat \<Rightarrow> int \<Rightarrow> error + nat list" where
  "f0_one vt i j m = mapM (\<lambda>k. move vt 0 (tuple_mul [i, j] (int k))) [0..<nat m]"

text \<open>
  The \<open>if/elif/elif/else\<close> of \<open>BasePolytope.get_faces\<close> for the pair \<open>(i, j)\<close>: the generators
  \<open>fgens\<close> and the base face \<open>f0\<close>, or \<open>None\<close> for \<open>continue\<close>.
\<close>

definition face_setup :: "nat list list option \<Rightarrow> bool list \<Rightarrow> int list list \<Rightarrow> nat \<Rightarrow> nat
                           \<Rightarrow> error + (word list \<times> nat list) option" where
  "face_setup vt act cm i j =
     bind (py_and (getitem act i) (getitem act j)) (\<lambda>c1.
       if c1 then
         bind (cox cm i j) (\<lambda>m. bind (f0_both vt i j m) (\<lambda>f0. Inr (Some ([[i, j]], f0))))
       else
         bind (py_and (getitem act i) (bind (cox cm i j) (\<lambda>m. Inr (2 < m)))) (\<lambda>c2.
           if c2 then
             bind (cox cm i j) (\<lambda>m. bind (f0_one vt i j m) (\<lambda>f0. Inr (Some ([[i, j], [i]], f0))))
           else
             bind (py_and (getitem act j) (bind (cox cm i j) (\<lambda>m. Inr (2 < m)))) (\<lambda>c3.
               if c3 then
                 bind (cox cm i j) (\<lambda>m. bind (f0_one vt i j m) (\<lambda>f0. Inr (Some ([[i, j], [j]], f0))))
               else Inr None)))"

text \<open>The avoid-duplicates step of both face builders.\<close>

definition add_face :: "nat list list \<Rightarrow> nat list \<Rightarrow> nat list list" where
  "add_face flist f = (if \<not> check_duplicate_face f flist then flist @ [f] else flist)"

text \<open>The loop \<open>for word in words\<close> of both face builders.\<close>

fun face_loop :: "nat list list option \<Rightarrow> nat list \<Rightarrow> word list \<Rightarrow> nat list list
                   \<Rightarrow> error + nat list list" where
  "face_loop vt f0 [] flist = Inr flist"
| "face_loop vt f0 (w # ws) flist =
     bind (mapM (\<lambda>v. move vt v w) f0) (\<lambda>f. face_loop vt f0 ws (add_face flist f))"

text \<open>
  The part of the body of the loop of \<open>BasePolytope.get_faces\<close> after the case analysis:
  the enumeration modulo the subgroup generated by \<open>fgens\<close>, the images of the base face
  \<open>f0\<close>, and the two \<open>append\<close>s.
\<close>

definition face_orbit :: "('v, 'm) env \<Rightarrow> ('v, 'm) polytope \<Rightarrow> word list \<Rightarrow> nat list
                           \<Rightarrow> error + ('v, 'm) polytope" where
  "face_orbit env st fgens f0 =
     bind (CosetTable env (symmetry_gens st) (symmetry_rels st) (Some fgens) None) (\<lambda>ftable.
     bind (face_loop (vtable st) f0 (ct_words ftable) []) (\<lambda>flist.
     bind (face_coords_of (vertex_coords st) flist) (\<lambda>fcoords.
       Inr (st\<lparr> face_indices := face_indices st @ [flist],
                face_coords := face_coords st @ [fcoords] \<rparr>))))"

text \<open>The loop \<open>for i, j in combinations(self.symmetry_gens, 2)\<close> of \<open>BasePolytope.get_faces\<close>.\<close>

fun get_faces_loop :: "('v, 'm) env \<Rightarrow> (nat \<times> nat) list \<Rightarrow> ('v, 'm) polytope
                        \<Rightarrow> error + ('v, 'm) polytope" where
  "get_faces_loop env [] st = Inr st"
| "get_faces_loop env ((i, j) # rest) st =
     bind (face_setup (vtable st) (active st) (coxeter_matrix st) i j) (\<lambda>r.
       case r of
         None \<Rightarrow> get_faces_loop env rest st
       | Some (fgens, f0) \<Rightarrow>
           bind (face_orbit env st fgens f0) (get_faces_loop env rest))"

definition get_faces :: "('v, 'm) env \<Rightarrow> ('v, 'm) polytope \<Rightarrow> error + ('v, 'm) polytope" where
  "get_faces env st =
     bind (get_faces_loop env (combinations2 (symmetry_gens st)) st)
       (\<lambda>st'. Inr (st'\<lparr> num_faces := Some (sum_list (map length (face_indices st'))) \<rparr>))"

definition build_geometry :: "('v, 'm) env \<Rightarrow> ('v, 'm) polytope \<Rightarrow> error + ('v, 'm) polytope" where
  "build_geometry env st = bind (get_vertices env st) (\<lambda>s1. bind (get_edges env s1) (get_faces env))"

subsection \<open>The constructors of the subclasses\<close>

text \<open>\<open>Polyhedra.__init__\<close>: \<open>if not len(upper_triangle) == len(init_dist) == 3\<close>\<close>

definition Polyhedra_init ::
  "('v, 'm) env \<Rightarrow> int list \<Rightarrow> real list \<Rightarrow> error + ('v, 'm) polytope" where
  "Polyhedra_init env upper_triangle init_dist =
     (if \<not> (length upper_triangle = length init_dist \<and> length init_dist = 3)
      then Inl ValueError
      else BasePolytope_init env upper_triangle init_dist)"

text \<open>
  \<open>Polychora.__init__\<close>: \<open>if not len(upper_triangle) == 6 and len(init_dist) == 4\<close>, where
  \<open>not\<close> binds tighter than \<open>and\<close>.
\<close>

definition Polychora_init ::
  "('v, 'm) env \<Rightarrow> int list \<Rightarrow> real list \<Rightarrow> error + ('v, 'm) polytope" where
  "Polychora_init env upper_triangle init_dist =
     (if (\<not> length upper_triangle = 6) \<and> length init_dist = 4
      then Inl ValueError
      else BasePolytope_init env upper_triangle init_dist)"

subsection \<open>The snub variant\<close>

text \<open>\<open>Snub.__init__\<close>; its default \<open>init_dist\<close> is \<open>(1.0, 1.0, 1.0)\<close>.\<close>

definition Snub_default_dist :: "real list" where
  "Snub_default_dist = [1, 1, 1]"

definition Snub_init ::
  "('v, 'm) env \<Rightarrow> int list \<Rightarrow> real list \<Rightarrow> error + ('v, 'm) polytope" where
  "Snub_init env upper_triangle init_dist =
     bind (Polyhedra_init env upper_triangle init_dist) (\<lambda>st.
     bind (cox (coxeter_matrix st) 0 1) (\<lambda>m01.
     bind (cox (coxeter_matrix st) 1 2) (\<lambda>m12.
     bind (cox (coxeter_matrix st) 0 2) (\<lambda>m02.
       Inr (st\<lparr> symmetry_gens := [0, 1, 2, 3],
                symmetry_rels := [tuple_mul [0] m01, tuple_mul [2] m12, tuple_mul [0, 2] m02,
                                  [0, 1], [2, 3]],
                rotations := Some [([0], m01), ([2], m12), ([0, 2], m02)] \<rparr>)))))"

text \<open>\<open>Snub._transform\<close>\<close>

fun snub_transform :: "('v, 'm) env \<Rightarrow> 'm list \<Rightarrow> 'v \<Rightarrow> word \<Rightarrow> error + 'v" where
  "snub_transform env R v [] = Inr v"
| "snub_transform env R v (g # gs) =
     (if g = 0 then
        bind (getitem R 0) (\<lambda>M0. bind (getitem R 1) (\<lambda>M1.
          snub_transform env R (np_dot env (np_dot env v M0) M1) gs))
      else
        bind (getitem R 1) (\<lambda>M1. bind (getitem R 2) (\<lambda>M2.
          snub_transform env R (np_dot env (np_dot env v M1) M2) gs)))"

text \<open>\<open>Snub.get_vertices\<close>: \<open>CosetTable(gens, rels, coxeter=False)\<close>, no subgroup generators passed.\<close>

definition snub_get_vertices :: "('v, 'm) env \<Rightarrow> ('v, 'm) polytope \<Rightarrow> error + ('v, 'm) polytope" where
  "snub_get_vertices env st =
     bind (CosetTable env (symmetry_gens st) (symmetry_rels st) None (Some False))
       (\<lambda>ct. bind (mapM (snub_transform env (reflections st) (init_v st)) (ct_words ct))
         (\<lambda>coords. Inr (st\<lparr> vtable := Some (ct_rows ct),
                              vwords := Some (ct_words ct),
                              num_vertices := Some (length (ct_words ct)),
                              vertex_coords := coords \<rparr>)))"

text \<open>Reading an attribute that may be missing.\<close>

definition getattr :: "'a option \<Rightarrow> error + 'a" where
  "getattr x = (case x of None \<Rightarrow> Inl AttributeError | Some y \<Rightarrow> Inr y)"

text \<open>\<open>self.rotations[key]\<close>\<close>

definition dict_get :: "(word \<times> int) list \<Rightarrow> word \<Rightarrow> error + int" where
  "dict_get d k = (case map_of d k of None \<Rightarrow> Inl KeyError | Some v \<Rightarrow> Inr v)"

text \<open>The loop \<open>for word in self._vwords\<close> of \<open>Snub.get_edges\<close>, for the base edge \<open>e0\<close>.\<close>

fun snub_edge_loop :: "nat list list option \<Rightarrow> nat \<times> nat \<Rightarrow> word list \<Rightarrow> (nat \<times> nat) list
                        \<Rightarrow> error + (nat \<times> nat) list" where
  "snub_edge_loop vt e0 [] elist = Inr elist"
| "snub_edge_loop vt e0 (w # ws) elist =
     bind (move vt (fst e0) w) (\<lambda>a.
     bind (move vt (snd e0) w) (\<lambda>b.
       snub_edge_loop vt e0 ws (add_edge elist (a, b))))"

text \<open>The loop \<open>for rot in self.rotations\<close> of \<open>Snub.get_edges\<close>.\<close>

fun snub_get_edges_loop :: "word list \<Rightarrow> ('v, 'm) polytope \<Rightarrow> error + ('v, 'm) polytope" where
  "snub_get_edges_loop [] st = Inr st"
| "snub_get_edges_loop (rot # rest) st =
     bind (move (vtable st) 0 rot) (\<lambda>v.
     bind (getattr (vwords st)) (\<lambda>ws.
     bind (snub_edge_loop (vtable st) (0, v) ws []) (\<lambda>elist.
     bind (edge_coords_of (vertex_coords st) elist) (\<lambda>ecoords.
       snub_get_edges_loop rest
         (st\<lparr> edge_indices := edge_indices st @ [elist],
              edge_coords := edge_coords st @ [ecoords] \<rparr>)))))"

definition snub_get_edges :: "('v, 'm) polytope \<Rightarrow> error + ('v, 'm) polytope" where
  "snub_get_edges st =
     bind (getattr (rotations st)) (\<lambda>rots.
     bind (snub_get_edges_loop (map fst rots) st)
       (\<lambda>st'. Inr (st'\<lparr> num_edges := Some (sum_list (map length (edge_indices st'))) \<rparr>)))"

text \<open>The three base cycles \<open>orbits\<close> of \<open>Snub.get_faces\<close>.\<close>

definition snub_orbits :: "nat list list option \<Rightarrow> (word \<times> int) list \<Rightarrow> error + nat list list" where
  "snub_orbits vt rots =
     bind (dict_get rots [0]) (\<lambda>p.
     bind (mapM (\<lambda>k. move vt 0 (tuple_mul [0] (int k))) [0..<nat p]) (\<lambda>o1.
     bind (dict_get rots [2]) (\<lambda>q.
     bind (mapM (\<lambda>k. move vt 0 (tuple_mul [2] (int k))) [0..<nat q]) (\<lambda>o2.
     bind (move vt 0 [2]) (\<lambda>a.
     bind (move vt 0 [0, 2]) (\<lambda>b.
       Inr [o1, o2, [0, a, b]]))))))"

text \<open>The loop \<open>for f0 in orbits\<close> of \<open>Snub.get_faces\<close>.\<close>

fun snub_get_faces_loop :: "nat list list \<Rightarrow> ('v, 'm) polytope \<Rightarrow> error + ('v, 'm) polytope" where
  "snub_get_faces_loop [] st = Inr st"
| "snub_get_faces_loop (f0 # rest) st =
     bind (getattr (vwords st)) (\<lambda>ws.
     bind (face_loop (vtable st) f0 ws []) (\<lambda>flist.
     bind (face_coords_of (vertex_coords st) flist) (\<lambda>fcoords.
       snub_get_faces_loop rest
         (st\<lparr> face_indices := face_indices st @ [flist],
              face_coords := face_coords st @ [fcoords] \<rparr>))))"

definition snub_get_faces :: "('v, 'm) polytope \<Rightarrow> error + ('v, 'm) polytope" where
  "snub_get_faces st =
     bind (getattr (rotations st)) (\<lambda>rots.
     bind (snub_orbits (vtable st) rots) (\<lambda>orbits.
     bind (snub_get_faces_loop orbits st)
       (\<lambda>st'. Inr (st'\<lparr> num_faces := Some (sum_list (map length (face_indices st'))) \<rparr>))))"

subsection \<open>A concrete instance: the symmetry of the tetrahedron\<close>

text \<open>
  Modelled from the spec: \<open>helpers.get_coxeter_matrix\<close> is not in \<open>models.py\<close>. The spec
  describes a symmetric integer matrix with \<open>m[i][i] = 1\<close>, filled from the three
  (polyhedra) or six (polychora) entries above the diagonal, row by row.
\<close>

definition upper_to_matrix :: "int list \<Rightarrow> int list list" where
  "upper_to_matrix u =
     (case u of
        [p, q, r] \<Rightarrow> [[1, p, q], [p, 1, r], [q, r, 1]]
      | [a, b, c, d, e, f] \<Rightarrow> [[1, a, b, c], [a, 1, d, e], [b, d, 1, f], [c, e, f, 1]]
      | _ \<Rightarrow> [])"

text \<open>A row vector times a matrix given by its rows, as \<open>np.dot\<close> computes it.\<close>

definition vecmat :: "int list \<Rightarrow> int list list \<Rightarrow> int list" where
  "vecmat v M = map (\<lambda>j. sum_list (map2 (\<lambda>x row. x * row ! j) v M)) [0..<length v]"

text \<open>
  The reflection \<open>x \<mapsto> x - 2(x\<cdot>n)n/(n\<cdot>n)\<close> for a normal with \<open>n\<cdot>n = 2\<close>, as a matrix with
  integer entries.
\<close>

definition reflection2 :: "int list \<Rightarrow> int list list" where
  "reflection2 n = map (\<lambda>a. map (\<lambda>b. (if a = b then 1 else 0) - n ! a * n ! b) [0..<length n])
                     [0..<length n]"

text \<open>
  Coset tables of the group with diagram \<open>(3, 2, 3)\<close>: modulo the subgroups generated by
  \<open>{(1), (2)}\<close>, by \<open>{(0)}\<close> and by \<open>{(0, 1), (0)}\<close>, and of its rotation subgroup with
  the generators \<open>r, r\<^sup>-\<^sup>1, s, s\<^sup>-\<^sup>1\<close> numbered 0 to 3.
\<close>

definition tetra_vertex_table :: coset_table where
  "tetra_vertex_table =
     \<lparr> ct_rows = [[1, 0, 0], [0, 2, 1], [2, 1, 3], [3, 3, 2]],
       ct_words = [[], [0], [0, 1], [0, 1, 2]] \<rparr>"

definition tetra_edge_table :: coset_table where
  "tetra_edge_table =
     \<lparr> ct_rows = [[0, 1, 2], [3, 0, 4], [2, 5, 0], [1, 3, 6], [6, 7, 1], [8, 2, 7],
                  [4, 9, 3], [10, 4, 5], [5, 8, 10], [11, 6, 9], [7, 11, 8], [9, 10, 11]],
       ct_words = [[], [1], [2], [1, 0], [1, 2], [2, 1], [1, 0, 2], [1, 2, 1], [2, 1, 0],
                   [1, 0, 2, 1], [1, 2, 1, 0], [1, 0, 2, 1, 0]] \<rparr>"

definition tetra_face_table :: coset_table where
  "tetra_face_table =
     \<lparr> ct_rows = [[0, 0, 1], [1, 2, 0], [3, 1, 2], [2, 3, 3]],
       ct_words = [[], [2], [2, 1], [2, 1, 0]] \<rparr>"

definition tetra_rotation_table :: coset_table where
  "tetra_rotation_table =
     \<lparr> ct_rows = [[1, 3, 2, 6], [3, 0, 4, 8], [5, 9, 6, 0], [0, 1, 7, 5], [6, 10, 8, 1],
                  [9, 2, 3, 7], [10, 4, 0, 2], [8, 11, 5, 3], [11, 7, 1, 4], [2, 5, 11, 10],
                  [4, 6, 9, 11], [7, 8, 10, 9]],
       ct_words = [[], [0], [2], [0, 0], [0, 2], [2, 0], [2, 2], [0, 0, 2], [0, 2, 2],
                   [2, 0, 0], [2, 2, 0], [0, 2, 2, 0]] \<rparr>"

definition tetra_CosetTable ::
  "nat list \<Rightarrow> word list \<Rightarrow> word list option \<Rightarrow> bool option \<Rightarrow> error + coset_table" where
  "tetra_CosetTable gens rels subgens coxeter =
     (if subgens = Some [[1], [2]] \<and> coxeter = None then Inr tetra_vertex_table
      else if subgens = Some [[0]] \<and> coxeter = None then Inr tetra_edge_table
      else if subgens = Some [[0, 1], [0]] \<and> coxeter = None then Inr tetra_face_table
      else if subgens = None \<and> coxeter = Some False then Inr tetra_rotation_table
      else Inl EnumerationError)"

text \<open>
  The mirrors \<open>x = y\<close>, \<open>y = z\<close> and \<open>x = -y\<close>, and initial points on integer coordinates:
  \<open>(1, -1, -1)\<close> lies on the second and third mirror, \<open>(1, -2, -3)\<close> on none.
\<close>

definition tetra_env :: "(int list, int list list) env" where
  "tetra_env =
     \<lparr> np_dot = vecmat,
       get_coxeter_matrix = upper_to_matrix,
       get_mirrors = (\<lambda>u. [[1, -1, 0], [0, 1, -1], [-1, -1, 0]]),
       reflection_matrix = reflection2,
       get_init_point = (\<lambda>ms d. if d = [1, 0, 0] then [1, -1, -1] else [1, -2, -3]),
       CosetTable = tetra_CosetTable \<rparr>"

text \<open>
  The object after \<open>Polyhedra((3, 2, 3), (1, 0, 0))\<close> and after its \<open>get_vertices()\<close>:
  the tetrahedron.
\<close>

definition tetra_state0 :: "(int list, int list list) polytope" where
  "tetra_state0 =
     \<lparr> coxeter_matrix = [[1, 3, 2], [3, 1, 3], [2, 3, 1]],
       mirrors = [[1, -1, 0], [0, 1, -1], [-1, -1, 0]],
       reflections = [[[0, 1, 0], [1, 0, 0], [0, 0, 1]],
                      [[1, 0, 0], [0, 0, 1], [0, 1, 0]],
                      [[0, -1, 0], [-1, 0, 0], [0, 0, 1]]],
       init_v = [1, -1, -1],
       active = [True, False, False],
       symmetry_gens = [0, 1, 2],
       symmetry_rels = [[0, 1, 0, 1, 0, 1], [0, 2, 0, 2], [1, 2, 1, 2, 1, 2]],
       vtable = None,
       vwords = None,
       num_vertices = None,
       vertex_coords = [],
       num_edges = None,
       edge_indices = [],
       edge_coords = [],
       num_faces = None,
       face_indices = [],
       face_coords = [],
       rotations = None \<rparr>"

definition tetra_state1 :: "(int list, int list list) polytope" where
  "tetra_state1 =
     tetra_state0\<lparr> vtable := Some [[1, 0, 0], [0, 2, 1], [2, 1, 3], [3, 3, 2]],
                   vwords := Some [[], [0], [0, 1], [0, 1, 2]],
                   num_vertices := Some 4,
                   vertex_coords := [[1, -1, -1], [-1, 1, -1], [-1, -1, 1], [1, 1, 1]] \<rparr>"

text \<open>The same object after \<open>get_edges()\<close> and after \<open>get_faces()\<close>.\<close>

definition tetra_state2 :: "(int list, int list list) polytope" where
  "tetra_state2 =
     tetra_state1\<lparr> edge_indices := [[(0, 1), (0, 2), (1, 2), (0, 3), (1, 3), (2, 3)]],
                   edge_coords := [[([1, -1, -1], [-1, 1, -1]), ([1, -1, -1], [-1, -1, 1]),
                                      ([-1, 1, -1], [-1, -1, 1]), ([1, -1, -1], [1, 1, 1]),
                                      ([-1, 1, -1], [1, 1, 1]), ([-1, -1, 1], [1, 1, 1])]],
                   num_edges := Some 6 \<rparr>"

definition tetra_state3 :: "(int list, int list list) polytope" where
  "tetra_state3 =
     tetra_state2\<lparr> face_indices := [[[0, 2, 1], [0, 3, 1], [0, 3, 2], [1, 3, 2]]],
                   face_coords := [[[[1, -1, -1], [-1, -1, 1], [-1, 1, -1]],
                                      [[1, -1, -1], [1, 1, 1], [-1, 1, -1]],
                                      [[1, -1, -1], [1, 1, 1], [-1, -1, 1]],
                                      [[-1, 1, -1], [1, 1, 1], [-1, -1, 1]]]],
                   num_faces := Some 4 \<rparr>"

text \<open>
  The object after \<open>Snub((3, 2, 3))\<close>, and after its \<open>get_vertices()\<close>, \<open>get_edges()\<close> and
  \<open>get_faces()\<close>: the snub tetrahedron, an icosahedron.
\<close>

definition snub_state0 :: "(int list, int list list) polytope" where
  "snub_state0 =
     tetra_state0\<lparr> init_v := [1, -2, -3],
                   active := [True, True, True],
                   symmetry_gens := [0, 1, 2, 3],
                   symmetry_rels := [[0, 0, 0], [2, 2, 2], [0, 2, 0, 2], [0, 1], [2, 3]],
                   rotations := Some [([0], 3), ([2], 3), ([0, 2], 2)] \<rparr>"

definition snub_state1 :: "(int list, int list list) polytope" where
  "snub_state1 =
     snub_state0\<lparr> vtable := Some (ct_rows tetra_rotation_table),
                  vwords := Some (ct_words tetra_rotation_table),
                  num_vertices := Some 12,
                  vertex_coords := [[1, -2, -3], [-2, -3, 1], [3, -1, -2], [-3, 1, -2],
                                    [-1, 2, -3], [-1, -2, 3], [2, -3, -1], [2, 3, 1],
                                    [3, 1, 2], [-2, 3, -1], [-3, -1, 2], [1, 2, 3]] \<rparr>"

definition snub_state2 :: "(int list, int list list) polytope" where
  "snub_state2 =
     snub_state1\<lparr> edge_indices :=
                    [[(0, 1), (1, 3), (2, 4), (3, 0), (4, 7), (5, 6), (6, 8), (7, 2), (8, 5),
                       (9, 10), (10, 11), (11, 9)],
                     [(0, 2), (1, 5), (2, 6), (3, 9), (4, 3), (5, 10), (6, 0), (7, 11),
                       (8, 7), (9, 4), (10, 1), (11, 8)],
                     [(0, 4), (1, 6), (2, 8), (3, 10), (5, 11), (7, 9)]],
                  edge_coords :=
                    [[([1, -2, -3], [-2, -3, 1]), ([-2, -3, 1], [-3, 1, -2]),
                      ([3, -1, -2], [-1, 2, -3]), ([-3, 1, -2], [1, -2, -3]),
                      ([-1, 2, -3], [2, 3, 1]), ([-1, -2, 3], [2, -3, -1]),
                      ([2, -3, -1], [3, 1, 2]), ([2, 3, 1], [3, -1, -2]),
                      ([3, 1, 2], [-1, -2, 3]), ([-2, 3, -1], [-3, -1, 2]),
                      ([-3, -1, 2], [1, 2, 3]), ([1, 2, 3], [-2, 3, -1])],
                     [([1, -2, -3], [3, -1, -2]), ([-2, -3, 1], [-1, -2, 3]),
                      ([3, -1, -2], [2, -3, -1]), ([-3, 1, -2], [-2, 3, -1]),
                      ([-1, 2, -3], [-3, 1, -2]), ([-1, -2, 3], [-3, -1, 2]),
                      ([2, -3, -1], [1, -2, -3]), ([2, 3, 1], [1, 2, 3]),
                      ([3, 1, 2], [2, 3, 1]), ([-2, 3, -1], [-1, 2, -3]),
                      ([-3, -1, 2], [-2, -3, 1]), ([1, 2, 3], [3, 1, 2])],
                     [([1, -2, -3], [-1, 2, -3]), ([-2, -3, 1], [2, -3, -1]),
                      ([3, -1, -2], [3, 1, 2]), ([-3, 1, -2], [-3, -1, 2]),
                      ([-1, -2, 3], [1, 2, 3]), ([2, 3, 1], [-2, 3, -1])]],
                  num_edges := Some 30 \<rparr>"

definition snub_state3 :: "(int list, int list list) polytope" where
  "snub_state3 =
     snub_state2\<lparr> face_indices :=
                    [[[0, 1, 3], [2, 4, 7], [5, 6, 8], [9, 10, 11]],
                     [[0, 2, 6], [1, 5, 10], [3, 9, 4], [7, 11, 8]],
                     [[0, 2, 4], [1, 5, 6], [2, 6, 8], [3, 9, 10], [4, 3, 0], [5, 10, 11],
                       [6, 0, 1], [7, 11, 9], [8, 7, 2], [9, 4, 7], [10, 1, 3], [11, 8, 5]]],
                  face_coords :=
                    [[[[1, -2, -3], [-2, -3, 1], [-3, 1, -2]],
                      [[3, -1, -2], [-1, 2, -3], [2, 3, 1]],
                      [[-1, -2, 3], [2, -3, -1], [3, 1, 2]],
                      [[-2, 3, -1], [-3, -1, 2], [1, 2, 3]]],
                     [[[1, -2, -3], [3, -1, -2], [2, -3, -1]],
                      [[-2, -3, 1], [-1, -2, 3], [-3, -1, 2]],
                      [[-3, 1, -2], [-2, 3, -1], [-1, 2, -3]], [[2, 3, 1], [1, 2, 3], [3, 1, 2]]],
                     [[[1, -2, -3], [3, -1, -2], [-1, 2, -3]],
                      [[-2, -3, 1], [-1, -2, 3], [2, -3, -1]],
                      [[3, -1, -2], [2, -3, -1], [3, 1, 2]],
                      [[-3, 1, -2], [-2, 3, -1], [-3, -1, 2]],
                      [[-1, 2, -3], [-3, 1, -2], [1, -2, -3]],
                      [[-1, -2, 3], [-3, -1, 2], [1, 2, 3]],
                      [[2, -3, -1], [1, -2, -3], [-2, -3, 1]],
                      [[2, 3, 1], [1, 2, 3], [-2, 3, -1]], [[3, 1, 2], [2, 3, 1], [3, -1, -2]],
                      [[-2, 3, -1], [-1, 2, -3], [2, 3, 1]],
                      [[-3, -1, 2], [-2, -3, 1], [-3, 1, -2]],
                      [[1, 2, 3], [3, 1, 2], [-1, -2, 3]]]],
                  num_faces := Some 20 \<rparr>"

text \<open>
  The object after \<open>Polyhedra((2, 2, 2), (1, 1, 0))\<close> and its \<open>get_vertices()\<close>, for three
  mirrors at right angles: a square.
\<close>

definition square_state :: "(int list, int list list) polytope" where
  "square_state =
     \<lparr> coxeter_matrix = [[1, 2, 2], [2, 1, 2], [2, 2, 1]],
       mirrors = [[1, 0, 0], [0, 1, 0], [0, 0, 1]],
       reflections = [[[-1, 0, 0], [0, 1, 0], [0, 0, 1]],
                      [[1, 0, 0], [0, -1, 0], [0, 0, 1]],
                      [[1, 0, 0], [0, 1, 0], [0, 0, -1]]],
       init_v = [1, 1, 0],
       active = [True, True, False],
       symmetry_gens = [0, 1, 2],
       symmetry_rels = [[0, 1, 0, 1], [0, 2, 0, 2], [1, 2, 1, 2]],
       vtable = Some [[1, 2, 0], [0, 3, 1], [3, 0, 2], [2, 1, 3]],
       vwords = Some [[], [0], [1], [0, 1]],
       num_vertices = Some 4,
       vertex_coords = [[1, 1, 0], [-1, 1, 0], [1, -1, 0], [-1, -1, 0]],
       num_edges = None,
       edge_indices = [],
       edge_coords = [],
       num_faces = None,
       face_indices = [],
       face_coords = [],
       rotations = None \<rparr>"

text \<open>
  The reflection \<open>x \<mapsto> x - 2(x\<cdot>n)n\<close> for a unit normal, as a matrix with integer entries.
\<close>

definition reflection1 :: "int list \<Rightarrow> int list list" where
  "reflection1 n = map (\<lambda>a. map (\<lambda>b. (if a = b then 1 else 0) - 2 * (n ! a * n ! b)) [0..<length n])
                     [0..<length n]"

text \<open>
  Coset tables of the group with diagram \<open>(2, 2, 2)\<close>, three mirrors at right angles: modulo
  the subgroups generated by \<open>{(2)}\<close> and by \<open>{(0, 1)}\<close>.
\<close>

definition square_vertex_table :: coset_table where
  "square_vertex_table =
     \<lparr> ct_rows = [[1, 2, 0], [0, 3, 1], [3, 0, 2], [2, 1, 3]],
       ct_words = [[], [0], [1], [0, 1]] \<rparr>"

definition square_face_table :: coset_table where
  "square_face_table =
     \<lparr> ct_rows = [[1, 1, 2], [0, 0, 3], [3, 3, 0], [2, 2, 1]],
       ct_words = [[], [0], [2], [0, 2]] \<rparr>"

definition square_CosetTable ::
  "nat list \<Rightarrow> word list \<Rightarrow> word list option \<Rightarrow> bool option \<Rightarrow> error + coset_table" where
  "square_CosetTable gens rels subgens coxeter =
     (if subgens = Some [[2]] \<and> coxeter = None then Inr square_vertex_table
      else if subgens = Some [[0, 1]] \<and> coxeter = None then Inr square_face_table
      else Inl EnumerationError)"

definition square_env :: "(int list, int list list) env" where
  "square_env =
     \<lparr> np_dot = vecmat,
       get_coxeter_matrix = upper_to_matrix,
       get_mirrors = (\<lambda>u. [[1, 0, 0], [0, 1, 0], [0, 0, 1]]),
       reflection_matrix = reflection1,
       get_init_point = (\<lambda>ms d. [1, 1, 0]),
       CosetTable = square_CosetTable \<rparr>"

definition square_state3 :: "(int list, int list list) polytope" where
  "square_state3 =
     square_state\<lparr> face_indices := [[[0, 2, 3, 1]]],
                   face_coords := [[[[1, 1, 0], [1, -1, 0], [-1, -1, 0], [-1, 1, 0]]]],
                   num_faces := Some 1 \<rparr>"

text \<open>
  The octahedron, \<open>Polyhedra((3, 2, 3), (0, 1, 0))\<close>: the initial point \<open>(0, 0, -1)\<close> lies on
  the first and the third mirror. The subgroups generated by \<open>{(0, 1), (1)}\<close> and by
  \<open>{(1, 2), (1)}\<close> are those generated by \<open>{(0, 1), (0)}\<close> and by \<open>{(1), (2)}\<close>.
\<close>

definition octa_vertex_table :: coset_table where
  "octa_vertex_table =
     \<lparr> ct_rows = [[0, 1, 0], [2, 0, 3], [1, 2, 4], [4, 3, 1], [3, 5, 2], [5, 4, 5]],
       ct_words = [[], [1], [1, 0], [1, 2], [1, 0, 2], [1, 0, 2, 1]] \<rparr>"

definition octa_CosetTable ::
  "nat list \<Rightarrow> word list \<Rightarrow> word list option \<Rightarrow> bool option \<Rightarrow> error + coset_table" where
  "octa_CosetTable gens rels subgens coxeter =
     (if subgens = Some [[0], [2]] \<and> coxeter = None then Inr octa_vertex_table
      else if subgens = Some [[0, 1], [1]] \<and> coxeter = None then Inr tetra_face_table
      else if subgens = Some [[1, 2], [1]] \<and> coxeter = None then Inr tetra_vertex_table
      else Inl EnumerationError)"

definition octa_env :: "(int list, int list list) env" where
  "octa_env =
     \<lparr> np_dot = vecmat,
       get_coxeter_matrix = upper_to_matrix,
       get_mirrors = (\<lambda>u. [[1, -1, 0], [0, 1, -1], [-1, -1, 0]]),
       reflection_matrix = reflection2,
       get_init_point = (\<lambda>ms d. [0, 0, -1]),
       CosetTable = octa_CosetTable \<rparr>"

definition octa_state1 :: "(int list, int list list) polytope" where
  "octa_state1 =
     tetra_state0\<lparr> init_v := [0, 0, -1],
                   active := [False, True, False],
                   vtable := Some [[0, 1, 0], [2, 0, 3], [1, 2, 4], [4, 3, 1], [3, 5, 2], [5, 4, 5]],
                   vwords := Some [[], [1], [1, 0], [1, 2], [1, 0, 2], [1, 0, 2, 1]],
                   num_vertices := Some 6,
                   vertex_coords := [[0, 0, -1], [0, -1, 0], [-1, 0, 0], [1, 0, 0], [0, 1, 0],
                                     [0, 0, 1]] \<rparr>"

definition octa_state3 :: "(int list, int list list) polytope" where
  "octa_state3 =
     octa_state1\<lparr> face_indices := [[[0, 1, 2], [0, 3, 4], [1, 3, 5], [2, 4, 5]],
                                    [[0, 3, 1], [0, 4, 2], [1, 5, 2], [3, 5, 4]]],
                  face_coords :=
                    [[[[0, 0, -1], [0, -1, 0], [-1, 0, 0]], [[0, 0, -1], [1, 0, 0], [0, 1, 0]],
                      [[0, -1, 0], [1, 0, 0], [0, 0, 1]], [[-1, 0, 0], [0, 1, 0], [0, 0, 1]]],
                     [[[0, 0, -1], [1, 0, 0], [0, -1, 0]], [[0, 0, -1], [0, 1, 0], [-1, 0, 0]],
                      [[0, -1, 0], [0, 0, 1], [-1, 0, 0]], [[1, 0, 0], [0, 0, 1], [0, 1, 0]]]],
                  num_faces := Some 8 \<rparr>"

text \<open>An edge as an undirected pair: the smaller index first.\<close>

definition undirected :: "nat \<times> nat \<Rightarrow> nat \<times> nat" where
  "undirected e = (min (fst e) (snd e), max (fst e) (snd e))"

subsection \<open>Basic facts about sequencing\<close>

lemma bind_Inr_iff: "bind m f = Inr y \<longleftrightarrow> (\<exists>x. m = Inr x \<and> f x = Inr y)"
  by (cases m) (simp_all add: bind_def)

lemma bind_Inr [simp]: "bind (Inr x) f = f x"
  by (simp add: bind_def)

lemma bind_Inl [simp]: "bind (Inl e) f = Inl e"
  by (simp add: bind_def)

lemma getitem_Inr_iff: "getitem xs i = Inr x \<longleftrightarrow> i < length xs \<and> x = xs ! i"
  by (auto simp: getitem_def)

lemma mapM_Inr_iff:
  "mapM f xs = Inr ys \<longleftrightarrow> length ys = length xs \<and> (\<forall>k < length xs. f (xs ! k) = Inr (ys ! k))"
proof (induction xs arbitrary: ys)
  case Nil
  then show ?case by auto
next
  case (Cons x xs)
  show ?case
  proof (cases ys)
    case Nil
    then show ?thesis by (auto simp: bind_Inr_iff)
  next
    case (Cons y ys')
    then show ?thesis
      using Cons.IH [of ys'] by (auto simp: bind_Inr_iff less_Suc_eq_0_disj)
  qed
qed

text \<open>
  With this congruence rule the simplifier evaluates the first step of a sequence before it
  looks at the rest, as the program does.
\<close>

lemma bind_cong_weak: "m = m' \<Longrightarrow> bind m f = bind m' f"
  by simp

lemma tuple_mul_0: "tuple_mul w 0 = []"
  by (simp add: tuple_mul_def)

lemma tuple_mul_1: "tuple_mul w 1 = w"
  by (simp add: tuple_mul_def)

lemma tuple_mul_2: "tuple_mul w 2 = w @ w"
  by (simp add: tuple_mul_def eval_nat_numeral)

lemma rotate3: "rotate 0 [a, b, c] = [a, b, c]" "rotate 1 [a, b, c] = [b, c, a]"
  "rotate 2 [a, b, c] = [c, a, b]" "rotate 3 [a, b, c] = [a, b, c]"
  by (simp_all add: eval_nat_numeral)

lemma same_cycle3:
  "same_cycle [a, b, c] g \<longleftrightarrow>
     g = [a, b, c] \<or> g = [b, c, a] \<or> g = [c, a, b] \<or>
     g = [c, b, a] \<or> g = [b, a, c] \<or> g = [a, c, b]"
proof -
  have "set [0..<Suc (length [a, b, c])] = {0, 1, 2, 3}"
    by (auto simp: eval_nat_numeral)
  then show ?thesis
    unfolding same_cycle_def by (simp add: rotate3) blast
qed

subsection \<open>The tetrahedron and the snub tetrahedron, stage by stage\<close>

lemma tetra_init: "Polyhedra_init tetra_env [3, 2, 3] [1, 0, 0] = Inr tetra_state0"
  by (simp add: Polyhedra_init_def BasePolytope_init_def tetra_env_def tetra_state0_def
      upper_to_matrix_def cox_def getitem_def tuple_mul_def reflection2_def upt_conv_Cons
      eval_nat_numeral cong: bind_cong_weak)

lemma tetra_get_vertices: "get_vertices tetra_env tetra_state0 = Inr tetra_state1"
  by (simp add: get_vertices_def tetra_env_def tetra_state0_def tetra_state1_def vgens_def
      tetra_CosetTable_def tetra_vertex_table_def enumerate_eq_zip vecmat_def getitem_def
      upt_conv_Cons cong: bind_cong_weak)

lemma tetra_get_edges: "get_edges tetra_env tetra_state1 = Inr tetra_state2"
  by (simp add: get_edges_def tetra_env_def tetra_state0_def tetra_state1_def tetra_state2_def
      tetra_CosetTable_def tetra_edge_table_def enumerate_eq_zip getitem_def upt_conv_Cons
      add_edge_def edge_coords_of_def cong: bind_cong_weak)

lemma tetra_get_faces: "get_faces tetra_env tetra_state2 = Inr tetra_state3"
  by (simp add: get_faces_def face_setup_def face_orbit_def py_and_def f0_one_def f0_both_def
      cox_def tetra_env_def tetra_state0_def tetra_state1_def tetra_state2_def tetra_state3_def
      tetra_CosetTable_def tetra_face_table_def getitem_def upt_conv_Cons
      tuple_mul_0 tuple_mul_1 tuple_mul_2
      add_face_def check_duplicate_face_def same_cycle3 face_coords_of_def
      cong: bind_cong_weak)

lemma snub_init: "Snub_init tetra_env [3, 2, 3] Snub_default_dist = Inr snub_state0"
  by (simp add: Snub_init_def Snub_default_dist_def Polyhedra_init_def BasePolytope_init_def
      tetra_env_def tetra_state0_def snub_state0_def
      upper_to_matrix_def cox_def getitem_def tuple_mul_def reflection2_def upt_conv_Cons
      eval_nat_numeral cong: bind_cong_weak)

lemma snub_vertices: "snub_get_vertices tetra_env snub_state0 = Inr snub_state1"
  by (simp add: snub_get_vertices_def tetra_env_def tetra_state0_def snub_state0_def
      snub_state1_def tetra_CosetTable_def tetra_rotation_table_def vecmat_def getitem_def
      upt_conv_Cons cong: bind_cong_weak)

lemma snub_edges: "snub_get_edges snub_state1 = Inr snub_state2"
  by (simp add: snub_get_edges_def getattr_def tetra_state0_def snub_state0_def
      snub_state1_def snub_state2_def tetra_rotation_table_def getitem_def
      add_edge_def edge_coords_of_def cong: bind_cong_weak)

lemma snub_faces: "snub_get_faces snub_state2 = Inr snub_state3"
  by (simp add: snub_get_faces_def snub_orbits_def dict_get_def getattr_def
      tetra_state0_def snub_state0_def snub_state1_def snub_state2_def snub_state3_def
      tetra_rotation_table_def getitem_def upt_conv_Cons
      tuple_mul_0 tuple_mul_1 tuple_mul_2
      add_face_def check_duplicate_face_def same_cycle3 face_coords_of_def
      cong: bind_cong_weak)

lemma rotate4: "rotate 0 [a, b, c, d] = [a, b, c, d]" "rotate 1 [a, b, c, d] = [b, c, d, a]"
  "rotate 2 [a, b, c, d] = [c, d, a, b]" "rotate 3 [a, b, c, d] = [d, a, b, c]"
  "rotate 4 [a, b, c, d] = [a, b, c, d]"
  by (simp_all add: eval_nat_numeral)

lemma same_cycle4:
  "same_cycle [a, b, c, d] g \<longleftrightarrow>
     g = [a, b, c, d] \<or> g = [b, c, d, a] \<or> g = [c, d, a, b] \<or> g = [d, a, b, c] \<or>
     g = [d, c, b, a] \<or> g = [c, b, a, d] \<or> g = [b, a, d, c] \<or> g = [a, d, c, b]"
proof -
  have "set [0..<Suc (length [a, b, c, d])] = {0, 1, 2, 3, 4}"
    by (auto simp: eval_nat_numeral)
  then show ?thesis
    unfolding same_cycle_def by (simp add: rotate4) blast
qed

lemma square_vertices:
  "bind (Polyhedra_init square_env [2, 2, 2] [1, 1, 0]) (get_vertices square_env) = Inr square_state"
  by (simp add: Polyhedra_init_def BasePolytope_init_def get_vertices_def square_env_def
      square_state_def square_CosetTable_def square_vertex_table_def vgens_def enumerate_eq_zip
      upper_to_matrix_def cox_def getitem_def tuple_mul_def reflection1_def vecmat_def
      upt_conv_Cons eval_nat_numeral cong: bind_cong_weak)

lemma square_get_faces: "get_faces square_env square_state = Inr square_state3"
  by (simp add: get_faces_def face_setup_def face_orbit_def py_and_def f0_one_def f0_both_def
      cox_def square_env_def square_state_def square_state3_def
      square_CosetTable_def square_face_table_def getitem_def upt_conv_Cons
      tuple_mul_0 tuple_mul_1 tuple_mul_2
      add_face_def check_duplicate_face_def same_cycle4 face_coords_of_def
      cong: bind_cong_weak)

lemma octa_vertices:
  "bind (Polyhedra_init octa_env [3, 2, 3] [0, 1, 0]) (get_vertices octa_env) = Inr octa_state1"
  by (simp add: Polyhedra_init_def BasePolytope_init_def get_vertices_def octa_env_def
      octa_state1_def tetra_state0_def octa_CosetTable_def octa_vertex_table_def vgens_def
      enumerate_eq_zip upper_to_matrix_def cox_def getitem_def tuple_mul_def reflection2_def
      vecmat_def upt_conv_Cons eval_nat_numeral cong: bind_cong_weak)

lemma octa_get_faces: "get_faces octa_env octa_state1 = Inr octa_state3"
  by (simp add: get_faces_def face_setup_def face_orbit_def py_and_def f0_one_def f0_both_def
      cox_def octa_env_def octa_state1_def octa_state3_def tetra_state0_def
      octa_CosetTable_def tetra_face_table_def tetra_vertex_table_def getitem_def upt_conv_Cons
      tuple_mul_0 tuple_mul_1 tuple_mul_2
      add_face_def check_duplicate_face_def same_cycle3 face_coords_of_def
      cong: bind_cong_weak)

lemma enumerate_filter:
  "map fst (filter (\<lambda>(i, a). P a) (enumerate n xs)) =
   filter (\<lambda>i. P (xs ! (i - n))) [n..<n + length xs]"
proof (induction xs arbitrary: n)
  case Nil
  then show ?case by simp
next
  case (Cons x xs)
  have "filter (\<lambda>i. P ((y # xs) ! (i - n))) [Suc n..<Suc n + length xs] =
        filter (\<lambda>i. P (xs ! (i - Suc n))) [Suc n..<Suc n + length xs]" for y
    by (rule filter_cong) (auto simp: nth_Cons')
  moreover have "[n..<n + length (x # xs)] = n # [Suc n..<Suc n + length xs]"
    using upt_conv_Cons [of n "Suc (n + length xs)"] by (simp del: upt_Suc)
  ultimately show ?case
    using Cons.IH [of "Suc n"] by (simp del: upt_Suc)
qed

lemma active_indices:
  "map fst (filter snd (enumerate 0 act)) = filter (\<lambda>i. act ! i) [0..<length act]"
  using enumerate_filter [of "\<lambda>a. a" 0 act] by (simp add: case_prod_unfold)

subsection \<open>The vertex stage\<close>

lemma get_vertices_Inr_iff:
  "get_vertices env st = Inr st' \<longleftrightarrow>
     (\<exists>ct coords.
        CosetTable env (symmetry_gens st) (symmetry_rels st) (Some (vgens (active st))) None = Inr ct \<and>
        mapM (transform env (reflections st) (init_v st)) (ct_words ct) = Inr coords \<and>
        st' = st\<lparr> vtable := Some (ct_rows ct), vwords := Some (ct_words ct),
                   num_vertices := Some (length (ct_words ct)), vertex_coords := coords \<rparr>)"
  unfolding get_vertices_def bind_Inr_iff by auto

lemma transform_Inr_iff:
  "transform env R v w = Inr v' \<longleftrightarrow>
     (\<forall>g \<in> set w. g < length R) \<and> v' = foldl (\<lambda>x g. np_dot env x (R ! g)) v w"
  by (induction w arbitrary: v) (auto simp: bind_Inr_iff getitem_Inr_iff)

lemma vgens_eq: "vgens act = map (\<lambda>i. [i]) (filter (\<lambda>i. \<not> act ! i) [0..<length act])"
proof -
  have "vgens act = map (\<lambda>i. [i]) (map fst (filter (\<lambda>(i, a). \<not> a) (enumerate 0 act)))"
    by (simp add: vgens_def case_prod_unfold comp_def)
  then show ?thesis
    using enumerate_filter [of "\<lambda>a. \<not> a" 0 act] by simp
qed

lemma tetra_vertex_enum:
  "CosetTable tetra_env (symmetry_gens tetra_state0) (symmetry_rels tetra_state0)
     (Some (vgens (active tetra_state0))) None = Inr tetra_vertex_table"
  by (simp add: tetra_env_def tetra_state0_def tetra_CosetTable_def vgens_def enumerate_eq_zip
      upt_conv_Cons)

text \<open>
  C1. Whenever \<open>get_vertices\<close> returns, the coset enumeration modulo the stabilizer of the
  initial vertex has returned a table; \<open>num_vertices\<close> is the number of its words, and
  \<open>vertex_coords\<close> has one entry for each word, in the order of the words: the entry at
  position \<open>k\<close> is the image of the initial point under the word at position \<open>k\<close>. Nothing
  is removed or merged afterwards.
\<close>

theorem get_vertices_count:
  assumes "get_vertices env st = Inr st'"
  shows "\<exists>ct. CosetTable env (symmetry_gens st) (symmetry_rels st)
                (Some (vgens (active st))) None = Inr ct \<and>
              vwords st' = Some (ct_words ct) \<and>
              num_vertices st' = Some (length (ct_words ct)) \<and>
              length (vertex_coords st') = length (ct_words ct) \<and>
              (\<forall>k < length (ct_words ct).
                 transform env (reflections st) (init_v st) (ct_words ct ! k) =
                   Inr (vertex_coords st' ! k))"
  using assms unfolding get_vertices_Inr_iff mapM_Inr_iff by auto

theorem get_vertices_count_witness:
  "get_vertices tetra_env tetra_state0 = Inr tetra_state1 \<and>
   num_vertices tetra_state1 = Some (length (ct_words tetra_vertex_table)) \<and>
   length (vertex_coords tetra_state1) = length (ct_words tetra_vertex_table) \<and>
   length (ct_words tetra_vertex_table) = 4"
proof -
  have "length (ct_words tetra_vertex_table) = 4"
    by (simp add: tetra_vertex_table_def)
  with get_vertices_count [OF tetra_get_vertices] tetra_vertex_enum tetra_get_vertices
  show ?thesis by auto
qed

text \<open>
  C2. Whenever \<open>get_vertices\<close> returns, the subgroup generators handed to the enumeration
  are the one-letter words \<open>(i)\<close> for exactly the mirrors \<open>i\<close> whose active flag is false
  (in increasing order of \<open>i\<close>), and the coordinate of each coset is the initial point
  multiplied, as a row vector, by the reflection matrices named by the letters of its
  word, from the first letter to the last.
\<close>

theorem vertex_coords_word_order:
  assumes "get_vertices env st = Inr st'"
  shows "\<exists>ct. CosetTable env (symmetry_gens st) (symmetry_rels st)
                (Some (map (\<lambda>i. [i]) (filter (\<lambda>i. \<not> active st ! i) [0..<length (active st)])))
                None = Inr ct \<and>
              vertex_coords st' =
                map (foldl (\<lambda>x g. np_dot env x (reflections st ! g)) (init_v st)) (ct_words ct)"
proof -
  from assms obtain ct coords where
    ct: "CosetTable env (symmetry_gens st) (symmetry_rels st) (Some (vgens (active st))) None = Inr ct"
    and m: "mapM (transform env (reflections st) (init_v st)) (ct_words ct) = Inr coords"
    and st': "vertex_coords st' = coords"
    unfolding get_vertices_Inr_iff by auto
  from m have "coords = map (foldl (\<lambda>x g. np_dot env x (reflections st ! g)) (init_v st)) (ct_words ct)"
    unfolding mapM_Inr_iff transform_Inr_iff by (auto intro: nth_equalityI)
  with ct st' show ?thesis by (auto simp: vgens_eq)
qed

theorem vertex_coords_word_order_witness:
  "get_vertices tetra_env tetra_state0 = Inr tetra_state1 \<and>
   vertex_coords tetra_state1 =
     map (foldl (\<lambda>x g. np_dot tetra_env x (reflections tetra_state0 ! g)) (init_v tetra_state0))
       (ct_words tetra_vertex_table)"
proof -
  from vertex_coords_word_order [OF tetra_get_vertices] tetra_vertex_enum
  have "vertex_coords tetra_state1 =
     map (foldl (\<lambda>x g. np_dot tetra_env x (reflections tetra_state0 ! g)) (init_v tetra_state0))
       (ct_words tetra_vertex_table)"
    by (auto simp: vgens_eq)
  with tetra_get_vertices show ?thesis by simp
qed

subsection \<open>The edge stage\<close>

lemma edge_loop_Inr_iff:
  "edge_loop vt i ws el0 = Inr el \<longleftrightarrow>
     (\<exists>ps. mapM (\<lambda>w. bind (move vt 0 w) (\<lambda>v1. bind (move vt 0 (i # w)) (\<lambda>v2. Inr (v1, v2)))) ws = Inr ps
           \<and> el = foldl add_edge el0 ps)"
proof (induction ws arbitrary: el0)
  case Nil
  then show ?case by auto
next
  case (Cons w ws)
  show ?case
    by (cases "move vt 0 w"; cases "move vt 0 (i # w)") (auto simp: Cons.IH bind_Inr_iff)
qed

lemma edge_ends_Inr_iff:
  "bind (move vt 0 w) (\<lambda>v1. bind (move vt 0 (i # w)) (\<lambda>v2. Inr (v1, v2))) = Inr p \<longleftrightarrow>
     move vt 0 w = Inr (fst p) \<and> move vt 0 (i # w) = Inr (snd p)"
  by (cases p) (auto simp: bind_Inr_iff)

lemma edge_coords_of_Inr_iff:
  "edge_coords_of vc el = Inr ec \<longleftrightarrow>
     length ec = length el \<and>
     (\<forall>k < length el. fst (el ! k) < length vc \<and> snd (el ! k) < length vc \<and>
        ec ! k = (vc ! fst (el ! k), vc ! snd (el ! k)))"
  unfolding edge_coords_of_def mapM_Inr_iff
  by (auto simp: bind_Inr_iff getitem_Inr_iff case_prod_unfold)

lemma get_edges_loop_Inr:
  "get_edges_loop env ias st = Inr st' \<Longrightarrow>
   \<exists>els ecs. st' = st\<lparr> edge_indices := edge_indices st @ els, edge_coords := edge_coords st @ ecs \<rparr> \<and>
     length els = length (filter snd ias) \<and> length ecs = length els \<and>
     (\<forall>n < length els. \<exists>et.
        CosetTable env (symmetry_gens st) (symmetry_rels st)
          (Some [[map fst (filter snd ias) ! n]]) None = Inr et \<and>
        edge_loop (vtable st) (map fst (filter snd ias) ! n) (ct_words et) [] = Inr (els ! n) \<and>
        edge_coords_of (vertex_coords st) (els ! n) = Inr (ecs ! n))"
proof (induction ias arbitrary: st)
  case Nil
  then show ?case by simp
next
  case (Cons ia ias)
  obtain i a where ia: "ia = (i, a)" by (cases ia)
  show ?case
  proof (cases a)
    case False
    with Cons ia show ?thesis by simp
  next
    case True
    with Cons.prems ia obtain et el ec where
      et: "CosetTable env (symmetry_gens st) (symmetry_rels st) (Some [[i]]) None = Inr et"
      and el: "edge_loop (vtable st) i (ct_words et) [] = Inr el"
      and ec: "edge_coords_of (vertex_coords st) el = Inr ec"
      and rest: "get_edges_loop env ias
                  (st\<lparr> edge_indices := edge_indices st @ [el], edge_coords := edge_coords st @ [ec] \<rparr>) = Inr st'"
      by (auto simp: bind_Inr_iff)
    from Cons.IH [OF rest] obtain els ecs where
      st': "st' = st\<lparr> edge_indices := edge_indices st @ el # els, edge_coords := edge_coords st @ ec # ecs \<rparr>"
      and len: "length els = length (filter snd ias)" "length ecs = length els"
      and rel: "\<forall>n < length els. \<exists>et.
        CosetTable env (symmetry_gens st) (symmetry_rels st)
          (Some [[map fst (filter snd ias) ! n]]) None = Inr et \<and>
        edge_loop (vtable st) (map fst (filter snd ias) ! n) (ct_words et) [] = Inr (els ! n) \<and>
        edge_coords_of (vertex_coords st) (els ! n) = Inr (ecs ! n)"
      by auto
    have "\<forall>n < length (el # els). \<exists>et.
        CosetTable env (symmetry_gens st) (symmetry_rels st)
          (Some [[map fst (filter snd (ia # ias)) ! n]]) None = Inr et \<and>
        edge_loop (vtable st) (map fst (filter snd (ia # ias)) ! n) (ct_words et) [] = Inr ((el # els) ! n) \<and>
        edge_coords_of (vertex_coords st) ((el # els) ! n) = Inr ((ec # ecs) ! n)"
    proof (intro allI impI)
      fix n assume n: "n < length (el # els)"
      show "\<exists>et.
        CosetTable env (symmetry_gens st) (symmetry_rels st)
          (Some [[map fst (filter snd (ia # ias)) ! n]]) None = Inr et \<and>
        edge_loop (vtable st) (map fst (filter snd (ia # ias)) ! n) (ct_words et) [] = Inr ((el # els) ! n) \<and>
        edge_coords_of (vertex_coords st) ((el # els) ! n) = Inr ((ec # ecs) ! n)"
      proof (cases n)
        case 0
        with et el ec ia True show ?thesis by simp
      next
        case (Suc k)
        with n rel ia True show ?thesis by simp
      qed
    qed
    moreover have "length (el # els) = length (filter snd (ia # ias))"
      using len ia True by simp
    moreover have "length (ec # ecs) = length (el # els)"
      using len by simp
    ultimately show ?thesis using st' by blast
  qed
qed


text \<open>
  C3. Whenever \<open>get_edges\<close> returns, it has appended one edge list and one coordinate list
  for each mirror whose active flag is true, in increasing order of the mirror, and none for
  an inactive mirror. For the active mirror \<open>i\<close> the enumeration was requested modulo the
  subgroup generated by \<open>{(i)}\<close>; the candidate edge of the word \<open>w\<close> has the ends
  \<open>move(0, w)\<close> and \<open>move(0, (i,) + w)\<close>, both computed with the action table of the vertex
  stage; the edge list is what the avoid-duplicates step keeps of the candidates, in the
  order of the words. Every coordinate pair is read from \<open>vertex_coords\<close> at the two
  indices of its edge; no transform is applied.
\<close>

theorem get_edges_structure:
  assumes "get_edges env st = Inr st'"
  shows "\<exists>els ecs.
     edge_indices st' = edge_indices st @ els \<and>
     edge_coords st' = edge_coords st @ ecs \<and>
     length els = length (filter (\<lambda>i. active st ! i) [0..<length (active st)]) \<and>
     length ecs = length els \<and>
     (\<forall>n < length els. \<exists>et ps.
        CosetTable env (symmetry_gens st) (symmetry_rels st)
          (Some [[filter (\<lambda>i. active st ! i) [0..<length (active st)] ! n]]) None = Inr et \<and>
        length ps = length (ct_words et) \<and>
        (\<forall>k < length (ct_words et).
           move (vtable st) 0 (ct_words et ! k) = Inr (fst (ps ! k)) \<and>
           move (vtable st) 0
             (filter (\<lambda>i. active st ! i) [0..<length (active st)] ! n # ct_words et ! k) =
             Inr (snd (ps ! k))) \<and>
        els ! n = foldl add_edge [] ps \<and>
        length (ecs ! n) = length (els ! n) \<and>
        (\<forall>k < length (els ! n).
           fst (els ! n ! k) < length (vertex_coords st) \<and>
           snd (els ! n ! k) < length (vertex_coords st) \<and>
           ecs ! n ! k = (vertex_coords st ! fst (els ! n ! k),
                          vertex_coords st ! snd (els ! n ! k))))"
proof -
  from assms obtain s1 where
    loop: "get_edges_loop env (enumerate 0 (active st)) st = Inr s1"
    and st': "st' = s1\<lparr> num_edges := Some (sum_list (map length (edge_indices s1))) \<rparr>"
    by (auto simp: get_edges_def bind_Inr_iff)
  let ?acts = "filter (\<lambda>i. active st ! i) [0..<length (active st)]"
  have acts: "map fst (filter snd (enumerate 0 (active st))) = ?acts"
    by (rule active_indices)
  then have len: "length (filter snd (enumerate 0 (active st))) = length ?acts"
    by (metis length_map)
  from get_edges_loop_Inr [OF loop] obtain els ecs where
    s1: "s1 = st\<lparr> edge_indices := edge_indices st @ els, edge_coords := edge_coords st @ ecs \<rparr>"
    and lens: "length els = length ?acts" "length ecs = length els"
    and rel: "\<forall>n < length els. \<exists>et.
        CosetTable env (symmetry_gens st) (symmetry_rels st) (Some [[?acts ! n]]) None = Inr et \<and>
        edge_loop (vtable st) (?acts ! n) (ct_words et) [] = Inr (els ! n) \<and>
        edge_coords_of (vertex_coords st) (els ! n) = Inr (ecs ! n)"
    unfolding acts len by blast
  have "\<exists>et ps.
        CosetTable env (symmetry_gens st) (symmetry_rels st) (Some [[?acts ! n]]) None = Inr et \<and>
        length ps = length (ct_words et) \<and>
        (\<forall>k < length (ct_words et).
           move (vtable st) 0 (ct_words et ! k) = Inr (fst (ps ! k)) \<and>
           move (vtable st) 0 (?acts ! n # ct_words et ! k) = Inr (snd (ps ! k))) \<and>
        els ! n = foldl add_edge [] ps \<and>
        length (ecs ! n) = length (els ! n) \<and>
        (\<forall>k < length (els ! n).
           fst (els ! n ! k) < length (vertex_coords st) \<and>
           snd (els ! n ! k) < length (vertex_coords st) \<and>
           ecs ! n ! k = (vertex_coords st ! fst (els ! n ! k),
                          vertex_coords st ! snd (els ! n ! k)))"
    if n: "n < length els" for n
  proof -
    from rel n obtain et where
      et: "CosetTable env (symmetry_gens st) (symmetry_rels st) (Some [[?acts ! n]]) None = Inr et"
      and el: "edge_loop (vtable st) (?acts ! n) (ct_words et) [] = Inr (els ! n)"
      and ec: "edge_coords_of (vertex_coords st) (els ! n) = Inr (ecs ! n)"
      by blast
    from el obtain ps where
      ps: "length ps = length (ct_words et)"
        "\<forall>k < length (ct_words et).
           move (vtable st) 0 (ct_words et ! k) = Inr (fst (ps ! k)) \<and>
           move (vtable st) 0 (?acts ! n # ct_words et ! k) = Inr (snd (ps ! k))"
        "els ! n = foldl add_edge [] ps"
      unfolding edge_loop_Inr_iff mapM_Inr_iff edge_ends_Inr_iff by blast
    with et ec show ?thesis
      unfolding edge_coords_of_Inr_iff by blast
  qed
  with s1 st' lens show ?thesis
    by (intro exI [of _ els] exI [of _ ecs]) simp
qed

theorem get_edges_structure_witness:
  "get_edges tetra_env tetra_state1 = Inr tetra_state2 \<and>
   filter (\<lambda>i. active tetra_state1 ! i) [0..<length (active tetra_state1)] = [0] \<and>
   length (edge_indices tetra_state2) = 1 \<and>
   length (edge_coords tetra_state2) = 1"
proof -
  have acts: "filter (\<lambda>i. active tetra_state1 ! i) [0..<length (active tetra_state1)] = [0]"
    by (simp add: tetra_state1_def tetra_state0_def upt_conv_Cons)
  have "edge_indices tetra_state1 = []" "edge_coords tetra_state1 = []"
    by (simp_all add: tetra_state1_def tetra_state0_def)
  with get_edges_structure [OF tetra_get_edges] acts tetra_get_edges
  show ?thesis by auto
qed

lemma undirected_eq_iff:
  "undirected x = undirected e \<longleftrightarrow> x = e \<or> x = (snd e, fst e)"
  by (cases x; cases e) (auto simp: undirected_def min_def max_def)

lemma add_edge_distinct:
  "distinct (map undirected el) \<Longrightarrow> distinct (map undirected (add_edge el e))"
  by (auto simp: add_edge_def undirected_eq_iff)

lemma foldl_add_edge_distinct:
  "distinct (map undirected el) \<Longrightarrow> distinct (map undirected (foldl add_edge el ps))"
  by (induction ps arbitrary: el) (simp_all add: add_edge_distinct)

lemma snub_edge_loop_Inr:
  "snub_edge_loop vt e0 ws el0 = Inr el \<Longrightarrow> \<exists>ps. el = foldl add_edge el0 ps"
proof (induction ws arbitrary: el0)
  case Nil
  then have "el = foldl add_edge el0 []" by simp
  then show ?case by blast
next
  case (Cons w ws)
  then obtain a b where "snub_edge_loop vt e0 ws (add_edge el0 (a, b)) = Inr el"
    by (auto simp: bind_Inr_iff)
  from Cons.IH [OF this] obtain ps where "el = foldl add_edge el0 ((a, b) # ps)" by auto
  then show ?case by blast
qed

lemma distinct_undirected_no_reverse:
  assumes "distinct (map undirected el)" "(a, b) \<in> set el" "a \<noteq> b"
  shows "(b, a) \<notin> set el"
proof
  assume "(b, a) \<in> set el"
  with assms(1,2) have "undirected (a, b) = undirected (b, a) \<longrightarrow> (a, b) = (b, a)"
    by (meson distinct_map inj_onD)
  with assms(3) show False by (simp add: undirected_eq_iff)
qed

lemma snub_get_edges_loop_Inr:
  "snub_get_edges_loop rots st = Inr st' \<Longrightarrow>
   \<exists>els. edge_indices st' = edge_indices st @ els \<and> length els = length rots \<and>
     (\<forall>el \<in> set els. \<exists>ps. el = foldl add_edge [] ps)"
proof (induction rots arbitrary: st)
  case Nil
  then show ?case by simp
next
  case (Cons rot rots)
  from Cons.prems obtain v ws el ec where
    el: "snub_edge_loop (vtable st) (0, v) ws [] = Inr el"
    and rest: "snub_get_edges_loop rots
       (st\<lparr> edge_indices := edge_indices st @ [el], edge_coords := edge_coords st @ [ec] \<rparr>) = Inr st'"
    by (auto simp: bind_Inr_iff)
  from Cons.IH [OF rest] obtain els where
    "edge_indices st' = edge_indices st @ el # els" "length els = length rots"
    "\<forall>el \<in> set els. \<exists>ps. el = foldl add_edge [] ps"
    by auto
  with snub_edge_loop_Inr [OF el] show ?case
    by (intro exI [of _ "el # els"]) simp
qed


lemma get_edges_new_lists:
  assumes "get_edges env st = Inr st'"
  shows "\<exists>els. edge_indices st' = edge_indices st @ els \<and>
           (\<forall>el \<in> set els. \<exists>ps. el = foldl add_edge [] ps)"
proof -
  from assms obtain s1 where
    loop: "get_edges_loop env (enumerate 0 (active st)) st = Inr s1"
    and st': "st' = s1\<lparr> num_edges := Some (sum_list (map length (edge_indices s1))) \<rparr>"
    by (auto simp: get_edges_def bind_Inr_iff)
  from get_edges_loop_Inr [OF loop] obtain els where
    s1: "edge_indices s1 = edge_indices st @ els"
    and rel: "\<forall>n < length els. \<exists>ps. els ! n = foldl add_edge [] ps"
    unfolding edge_loop_Inr_iff by fastforce
  from rel have "\<forall>el \<in> set els. \<exists>ps. el = foldl add_edge [] ps"
    by (auto simp: in_set_conv_nth)
  with s1 st' show ?thesis by simp
qed

lemma snub_get_edges_new_lists:
  assumes "snub_get_edges st = Inr st'"
  shows "\<exists>els. edge_indices st' = edge_indices st @ els \<and>
           (\<forall>el \<in> set els. \<exists>ps. el = foldl add_edge [] ps)"
proof -
  from assms obtain rots :: "(word \<times> int) list" and s1 where
    loop: "snub_get_edges_loop (map fst rots) st = Inr s1"
    and st': "edge_indices st' = edge_indices s1"
    by (auto simp: snub_get_edges_def bind_Inr_iff)
  from snub_get_edges_loop_Inr [OF loop] st' show ?thesis by auto
qed

lemma undirected_unique_lists:
  assumes "edge_indices st' = edge_indices st @ els"
    and "\<forall>el \<in> set els. \<exists>ps. el = foldl add_edge [] ps"
    and "\<forall>el \<in> set (edge_indices st). distinct (map undirected el)"
  shows "\<forall>el \<in> set (edge_indices st').
           distinct (map undirected el) \<and>
           (\<forall>a b. (a, b) \<in> set el \<and> a \<noteq> b \<longrightarrow> (b, a) \<notin> set el)"
proof
  fix el assume "el \<in> set (edge_indices st')"
  with assms have "distinct (map undirected el)"
    using foldl_add_edge_distinct [of "[]"] by auto
  then show "distinct (map undirected el) \<and>
           (\<forall>a b. (a, b) \<in> set el \<and> a \<noteq> b \<longrightarrow> (b, a) \<notin> set el)"
    using distinct_undirected_no_reverse by blast
qed

text \<open>
  C4. In the base builder and in the snub variant alike, an edge is appended to the list of
  its type only if neither it nor its reverse is in the list. So whenever \<open>get_edges\<close>
  returns (lists that were there before being free of repetitions), no list of
  \<open>edge_indices\<close> holds the same undirected pair at two positions, and no list holds a
  pair of two different vertices together with its reverse.
\<close>

theorem edge_lists_undirected_unique:
  "(get_edges env st = Inr st' \<or> snub_get_edges st = Inr st') \<and>
   (\<forall>el \<in> set (edge_indices st). distinct (map undirected el)) \<longrightarrow>
   (\<forall>el \<in> set (edge_indices st').
      distinct (map undirected el) \<and>
      (\<forall>a b. (a, b) \<in> set el \<and> a \<noteq> b \<longrightarrow> (b, a) \<notin> set el))"
  using get_edges_new_lists [of env st st'] snub_get_edges_new_lists [of st st']
    undirected_unique_lists [of st' st]
  by blast

theorem edge_lists_undirected_unique_witness:
  "get_edges tetra_env tetra_state1 = Inr tetra_state2 \<and>
   snub_get_edges snub_state1 = Inr snub_state2 \<and>
   edge_indices tetra_state1 = [] \<and> edge_indices snub_state1 = [] \<and>
   list_all (\<lambda>el. distinct (map undirected el)) (edge_indices tetra_state2) \<and>
   list_all (\<lambda>el. distinct (map undirected el)) (edge_indices snub_state2) \<and>
   length (edge_indices tetra_state2) = 1 \<and> length (edge_indices snub_state2) = 3"
proof -
  have e: "edge_indices tetra_state1 = []" "edge_indices snub_state1 = []"
    by (simp_all add: tetra_state1_def tetra_state0_def snub_state1_def snub_state0_def)
  have l: "length (edge_indices tetra_state2) = 1" "length (edge_indices snub_state2) = 3"
    by (simp_all add: tetra_state2_def snub_state2_def)
  from edge_lists_undirected_unique [of tetra_env tetra_state1 tetra_state2] tetra_get_edges e
  have "list_all (\<lambda>el. distinct (map undirected el)) (edge_indices tetra_state2)"
    by (simp add: list_all_iff)
  moreover
  from edge_lists_undirected_unique [of tetra_env snub_state1 snub_state2] snub_edges e
  have "list_all (\<lambda>el. distinct (map undirected el)) (edge_indices snub_state2)"
    by (simp add: list_all_iff)
  ultimately show ?thesis
    using tetra_get_edges snub_edges e l by simp
qed

subsection \<open>The face stage: no face twice\<close>

lemma rotate_back:
  assumes "k \<le> length f"
  shows "rotate (length f - k) (rotate k f) = f"
proof -
  have "rotate (length f - k) (rotate k f) = rotate (length f - k + k) f"
    by (simp add: rotate_rotate)
  also have "\<dots> = rotate (length f) f" using assms by simp
  also have "\<dots> = f" by (simp add: rotate_id)
  finally show ?thesis .
qed

lemma same_cycle_iff:
  "same_cycle f g \<longleftrightarrow> (\<exists>k \<le> length f. g = rotate k f \<or> g = rotate k (rev f))"
  unfolding same_cycle_def set_upt by (auto simp: less_Suc_eq_le)

lemma same_cycle_sym:
  assumes "same_cycle f g"
  shows "same_cycle g f"
proof -
  from assms obtain k where k: "k \<le> length f" "g = rotate k f \<or> g = rotate k (rev f)"
    unfolding same_cycle_iff by blast
  from k(2) show ?thesis
  proof
    assume g: "g = rotate k f"
    with k(1) have "f = rotate (length g - k) g" "length g - k \<le> length g"
      by (simp_all add: rotate_back)
    then show ?thesis
      unfolding same_cycle_iff by blast
  next
    assume g: "g = rotate k (rev f)"
    define j where "j = length f - k mod length f"
    have j: "j \<le> length f" by (simp add: j_def)
    have "rev g = rotate j f"
      unfolding g j_def by (simp add: rotate_rev)
    moreover have "length g = length f"
      using g by simp
    ultimately have "f = rotate (length (rev g) - j) (rev g)" "length (rev g) - j \<le> length g"
      using j by (simp_all add: rotate_back)
    then show ?thesis
      unfolding same_cycle_iff by blast
  qed
qed

lemma add_face_unique:
  assumes "\<forall>p < length fl. \<forall>q < p. \<not> same_cycle (fl ! p) (fl ! q)"
  shows "\<forall>p < length (add_face fl f). \<forall>q < p. \<not> same_cycle (add_face fl f ! p) (add_face fl f ! q)"
proof (cases "check_duplicate_face f fl")
  case True
  with assms show ?thesis by (simp add: add_face_def)
next
  case False
  then have new: "\<forall>q < length fl. \<not> same_cycle f (fl ! q)"
    by (auto simp: check_duplicate_face_def)
  show ?thesis
  proof (intro allI impI)
    fix p q assume p: "p < length (add_face fl f)" and q: "q < p"
    from False have af: "add_face fl f = fl @ [f]" by (simp add: add_face_def)
    show "\<not> same_cycle (add_face fl f ! p) (add_face fl f ! q)"
    proof (cases "p < length fl")
      case True
      with assms q show ?thesis by (simp add: af nth_append)
    next
      case False
      with p have "p = length fl" by (simp add: af)
      with q new show ?thesis by (simp add: af nth_append)
    qed
  qed
qed

lemma face_loop_unique:
  "face_loop vt f0 ws fl = Inr fl' \<Longrightarrow>
   \<forall>p < length fl. \<forall>q < p. \<not> same_cycle (fl ! p) (fl ! q) \<Longrightarrow>
   \<forall>p < length fl'. \<forall>q < p. \<not> same_cycle (fl' ! p) (fl' ! q)"
proof (induction ws arbitrary: fl)
  case Nil
  then show ?case by simp
next
  case (Cons w ws)
  from Cons.prems(1) obtain f where "face_loop vt f0 ws (add_face fl f) = Inr fl'"
    by (auto simp: bind_Inr_iff)
  from Cons.IH [OF this add_face_unique [OF Cons.prems(2)]] show ?case .
qed


lemma get_faces_loop_Inr:
  "get_faces_loop env ps st = Inr st' \<Longrightarrow>
   \<exists>fls. face_indices st' = face_indices st @ fls \<and>
     (\<forall>fl \<in> set fls. \<exists>vt f0 ws. face_loop vt f0 ws [] = Inr fl)"
proof (induction ps arbitrary: st)
  case Nil
  then show ?case by simp
next
  case (Cons p ps)
  obtain i j where p: "p = (i, j)" by (cases p)
  from Cons.prems p obtain r where
    r: "face_setup (vtable st) (active st) (coxeter_matrix st) i j = Inr r"
    by (auto simp: bind_Inr_iff)
  show ?case
  proof (cases r)
    case None
    with Cons.prems p r have "get_faces_loop env ps st = Inr st'" by simp
    from Cons.IH [OF this] show ?thesis .
  next
    case (Some gf)
    obtain fgens f0 where gf: "gf = (fgens, f0)" by (cases gf)
    from Cons.prems p r Some gf obtain ft :: coset_table and fl fc where
      fl: "face_loop (vtable st) f0 (ct_words ft) [] = Inr fl"
      and rest: "get_faces_loop env ps
         (st\<lparr> face_indices := face_indices st @ [fl], face_coords := face_coords st @ [fc] \<rparr>) = Inr st'"
      by (auto simp: bind_Inr_iff face_orbit_def)
    from Cons.IH [OF rest] obtain fls where
      "face_indices st' = face_indices st @ fl # fls"
      "\<forall>fl \<in> set fls. \<exists>vt f0 ws. face_loop vt f0 ws [] = Inr fl"
      by auto
    with fl show ?thesis
      by (intro exI [of _ "fl # fls"]) auto
  qed
qed

lemma snub_get_faces_loop_Inr:
  "snub_get_faces_loop orbits st = Inr st' \<Longrightarrow>
   \<exists>fls. face_indices st' = face_indices st @ fls \<and>
     (\<forall>fl \<in> set fls. \<exists>vt f0 ws. face_loop vt f0 ws [] = Inr fl)"
proof (induction orbits arbitrary: st)
  case Nil
  then show ?case by simp
next
  case (Cons f0 orbits)
  from Cons.prems obtain ws fl fc where
    fl: "face_loop (vtable st) f0 ws [] = Inr fl"
    and rest: "snub_get_faces_loop orbits
       (st\<lparr> face_indices := face_indices st @ [fl], face_coords := face_coords st @ [fc] \<rparr>) = Inr st'"
    by (auto simp: bind_Inr_iff)
  from Cons.IH [OF rest] obtain fls where
    "face_indices st' = face_indices st @ fl # fls"
    "\<forall>fl \<in> set fls. \<exists>vt f0 ws. face_loop vt f0 ws [] = Inr fl"
    by auto
  with fl show ?case
    by (intro exI [of _ "fl # fls"]) auto
qed

lemma faces_new_lists:
  assumes "get_faces env st = Inr st' \<or> snub_get_faces st = Inr st'"
  shows "\<exists>fls. face_indices st' = face_indices st @ fls \<and>
     (\<forall>fl \<in> set fls. \<exists>vt f0 ws. face_loop vt f0 ws [] = Inr fl)"
  using assms
proof
  assume "get_faces env st = Inr st'"
  then obtain s1 where "get_faces_loop env (combinations2 (symmetry_gens st)) st = Inr s1"
    "face_indices st' = face_indices s1"
    by (auto simp: get_faces_def bind_Inr_iff)
  with get_faces_loop_Inr [of env _ st s1] show ?thesis by auto
next
  assume "snub_get_faces st = Inr st'"
  then obtain orbits s1 where "snub_get_faces_loop orbits st = Inr s1"
    "face_indices st' = face_indices s1"
    by (auto simp: snub_get_faces_def bind_Inr_iff)
  with snub_get_faces_loop_Inr [of orbits st s1] show ?thesis by auto
qed

text \<open>
  C6. In the base builder and in the snub variant alike, a candidate cycle is appended to
  the list of its type only if the duplicate check finds no match for it in the list. So
  whenever \<open>get_faces\<close> returns (lists that were there before being free of matches), no
  list of \<open>face_indices\<close> holds, at two different positions, two cycles that are equal up
  to cyclic rotation and reversal.
\<close>

theorem face_lists_unique:
  "(get_faces env st = Inr st' \<or> snub_get_faces st = Inr st') \<and>
   (\<forall>fl \<in> set (face_indices st). \<forall>p < length fl. \<forall>q < p. \<not> same_cycle (fl ! p) (fl ! q)) \<longrightarrow>
   (\<forall>fl \<in> set (face_indices st'). \<forall>p < length fl. \<forall>q < length fl.
      p \<noteq> q \<longrightarrow> \<not> same_cycle (fl ! p) (fl ! q))"
proof (intro impI ballI allI, elim conjE)
  fix fl p q
  assume run: "get_faces env st = Inr st' \<or> snub_get_faces st = Inr st'"
    and old: "\<forall>fl \<in> set (face_indices st). \<forall>p < length fl. \<forall>q < p. \<not> same_cycle (fl ! p) (fl ! q)"
    and fl: "fl \<in> set (face_indices st')"
    and pq: "p < length fl" "q < length fl" "p \<noteq> q"
  from faces_new_lists [OF run] obtain fls where
    fls: "face_indices st' = face_indices st @ fls"
    "\<forall>fl \<in> set fls. \<exists>vt f0 ws. face_loop vt f0 ws [] = Inr fl"
    by blast
  have uniq: "\<forall>p < length fl. \<forall>q < p. \<not> same_cycle (fl ! p) (fl ! q)"
  proof (cases "fl \<in> set (face_indices st)")
    case True
    with old show ?thesis by blast
  next
    case False
    with fl fls obtain vt f0 ws where "face_loop vt f0 ws [] = Inr fl" by auto
    from face_loop_unique [OF this] show ?thesis by simp
  qed
  show "\<not> same_cycle (fl ! p) (fl ! q)"
  proof (cases "q < p")
    case True
    with uniq pq show ?thesis by blast
  next
    case False
    with pq have "p < q" by simp
    with uniq pq have "\<not> same_cycle (fl ! q) (fl ! p)" by blast
    then show ?thesis using same_cycle_sym by blast
  qed
qed

theorem face_lists_unique_witness:
  "get_faces tetra_env tetra_state2 = Inr tetra_state3 \<and>
   snub_get_faces snub_state2 = Inr snub_state3 \<and>
   face_indices tetra_state2 = [] \<and> face_indices snub_state2 = [] \<and>
   face_indices tetra_state3 ! 0 ! 0 = [0, 2, 1] \<and>
   face_indices tetra_state3 ! 0 ! 1 = [0, 3, 1] \<and>
   \<not> same_cycle (face_indices tetra_state3 ! 0 ! 0) (face_indices tetra_state3 ! 0 ! 1) \<and>
   face_indices snub_state3 ! 2 ! 0 = [0, 2, 4] \<and>
   face_indices snub_state3 ! 2 ! 4 = [4, 3, 0] \<and>
   \<not> same_cycle (face_indices snub_state3 ! 2 ! 0) (face_indices snub_state3 ! 2 ! 4)"
proof -
  have e: "face_indices tetra_state2 = []" "face_indices snub_state2 = []"
    by (simp_all add: tetra_state2_def tetra_state1_def tetra_state0_def
        snub_state2_def snub_state1_def snub_state0_def)
  have t: "face_indices tetra_state3 ! 0 \<in> set (face_indices tetra_state3)"
    "length (face_indices tetra_state3 ! 0) = 4"
    "face_indices tetra_state3 ! 0 ! 0 = [0, 2, 1]" "face_indices tetra_state3 ! 0 ! 1 = [0, 3, 1]"
    by (simp_all add: tetra_state3_def)
  have s: "face_indices snub_state3 ! 2 \<in> set (face_indices snub_state3)"
    "length (face_indices snub_state3 ! 2) = 12"
    "face_indices snub_state3 ! 2 ! 0 = [0, 2, 4]" "face_indices snub_state3 ! 2 ! 4 = [4, 3, 0]"
    by (simp_all add: snub_state3_def)
  from face_lists_unique [of tetra_env tetra_state2 tetra_state3] tetra_get_faces e(1) t(1,2)
  have "\<not> same_cycle (face_indices tetra_state3 ! 0 ! 0) (face_indices tetra_state3 ! 0 ! 1)"
    by simp
  moreover
  from face_lists_unique [of tetra_env snub_state2 snub_state3] snub_faces e(2) s(1,2)
  have "\<not> same_cycle (face_indices snub_state3 ! 2 ! 0) (face_indices snub_state3 ! 2 ! 4)"
    by simp
  ultimately show ?thesis
    using tetra_get_faces snub_faces e t(3,4) s(3,4) by simp
qed

subsection \<open>The face stage: the case analysis\<close>

lemma concat_pairs:
  "\<forall>p \<in> set ps. length p = 2 \<Longrightarrow>
   length (concat ps) = 2 * length ps \<and>
   (\<forall>t < 2 * length ps. concat ps ! t = ps ! (t div 2) ! (t mod 2))"
proof (induction ps)
  case Nil
  then show ?case by simp
next
  case (Cons p ps)
  then have IH: "length (concat ps) = 2 * length ps"
    "\<forall>t < 2 * length ps. concat ps ! t = ps ! (t div 2) ! (t mod 2)"
    and p: "length p = 2" by simp_all
  have "concat (p # ps) ! t = (p # ps) ! (t div 2) ! (t mod 2)" if t: "t < 2 * length (p # ps)" for t
  proof (cases "t < 2")
    case True
    then have "t div 2 = 0" "t mod 2 = t" by simp_all
    with True p show ?thesis by (simp add: nth_append)
  next
    case False
    then obtain s where s: "t = s + 2" by (metis add.commute le_add_diff_inverse not_less)
    with t have "s < 2 * length ps" by simp
    with IH(2) have "concat ps ! s = ps ! (s div 2) ! (s mod 2)" by blast
    with s p show ?thesis by (simp add: nth_append)
  qed
  with IH(1) p show ?case by simp
qed

lemma f0_both_Inr_iff:
  "f0_both vt i j m = Inr f0 \<longleftrightarrow>
     length f0 = 2 * nat m \<and>
     (\<forall>k < nat m. move vt 0 (tuple_mul [i, j] (int k)) = Inr (f0 ! (2 * k)) \<and>
                   move vt 0 (j # tuple_mul [i, j] (int k)) = Inr (f0 ! (2 * k + 1)))"
  (is "?L \<longleftrightarrow> ?R")
proof
  assume ?L
  then obtain ps where ps: "length ps = nat m"
    "\<forall>k < nat m. \<exists>a b. move vt 0 (tuple_mul [i, j] (int k)) = Inr a \<and>
        move vt 0 (j # tuple_mul [i, j] (int k)) = Inr b \<and> ps ! k = [a, b]"
    and f0: "f0 = concat ps"
    unfolding f0_both_def bind_Inr_iff mapM_Inr_iff by fastforce
  from ps have two: "\<forall>p \<in> set ps. length p = 2"
    by (fastforce simp: in_set_conv_nth)
  from concat_pairs [OF two] ps(1) have
    len: "length (concat ps) = 2 * nat m"
    and nth: "\<forall>t < 2 * nat m. concat ps ! t = ps ! (t div 2) ! (t mod 2)"
    by simp_all
  have "move vt 0 (tuple_mul [i, j] (int k)) = Inr (f0 ! (2 * k)) \<and>
        move vt 0 (j # tuple_mul [i, j] (int k)) = Inr (f0 ! (2 * k + 1))" if k: "k < nat m" for k
  proof -
    from ps(2) k obtain a b where ab: "move vt 0 (tuple_mul [i, j] (int k)) = Inr a"
      "move vt 0 (j # tuple_mul [i, j] (int k)) = Inr b" "ps ! k = [a, b]" by blast
    from k have "2 * k < 2 * nat m" "2 * k + 1 < 2 * nat m" by simp_all
    with nth have "concat ps ! (2 * k) = ps ! k ! 0" "concat ps ! (2 * k + 1) = ps ! k ! 1"
      by (simp_all del: One_nat_def)
    with ab f0 show ?thesis by simp
  qed
  with len f0 show ?R by simp
next
  assume R: ?R
  define ps where "ps = map (\<lambda>k. [f0 ! (2 * k), f0 ! (2 * k + 1)]) [0..<nat m]"
  have two: "\<forall>p \<in> set ps. length p = 2" by (auto simp: ps_def)
  have lps: "length ps = nat m" by (simp add: ps_def)
  from concat_pairs [OF two] lps have
    len: "length (concat ps) = 2 * nat m"
    and nth: "\<forall>t < 2 * nat m. concat ps ! t = ps ! (t div 2) ! (t mod 2)"
    by simp_all
  have "concat ps = f0"
  proof (rule nth_equalityI)
    show "length (concat ps) = length f0" using len R by simp
  next
    fix t assume "t < length (concat ps)"
    then have t: "t < 2 * nat m" using len by simp
    then have d: "t div 2 < nat m" by simp
    have "ps ! (t div 2) ! (t mod 2) = f0 ! t"
    proof (cases "t mod 2 = 0")
      case True
      have "ps ! (t div 2) ! 0 = f0 ! (2 * (t div 2))"
        using d by (simp add: ps_def)
      also have "2 * (t div 2) = t" using True by presburger
      finally show ?thesis using True by simp
    next
      case False
      then have one: "t mod 2 = 1" by presburger
      have "ps ! (t div 2) ! 1 = f0 ! (2 * (t div 2) + 1)"
        using d by (simp add: ps_def)
      also have "2 * (t div 2) + 1 = t" using one by presburger
      finally show ?thesis using one by simp
    qed
    with nth t show "concat ps ! t = f0 ! t" by simp
  qed
  moreover have "mapM (\<lambda>k. bind (move vt 0 (tuple_mul [i, j] (int k))) (\<lambda>a.
                      bind (move vt 0 (j # tuple_mul [i, j] (int k))) (\<lambda>b. Inr [a, b])))
             [0..<nat m] = Inr ps"
    unfolding mapM_Inr_iff using R by (simp add: ps_def)
  ultimately show ?L
    unfolding f0_both_def by simp
qed

lemma f0_one_Inr_iff:
  "f0_one vt i j m = Inr f0 \<longleftrightarrow>
     length f0 = nat m \<and> (\<forall>k < nat m. move vt 0 (tuple_mul [i, j] (int k)) = Inr (f0 ! k))"
  unfolding f0_one_def mapM_Inr_iff by auto


lemma face_loop_Inr_iff:
  "face_loop vt f0 ws fl0 = Inr fl \<longleftrightarrow>
     (\<exists>imgs. mapM (\<lambda>w. mapM (\<lambda>v. move vt v w) f0) ws = Inr imgs \<and> fl = foldl add_face fl0 imgs)"
proof (induction ws arbitrary: fl0)
  case Nil
  then show ?case by auto
next
  case (Cons w ws)
  show ?case
    by (cases "mapM (\<lambda>v. move vt v w) f0") (auto simp: Cons.IH bind_Inr_iff)
qed

lemma mapM_getitem_Inr_iff:
  "mapM (getitem vc) xs = Inr ys \<longleftrightarrow> (\<forall>x \<in> set xs. x < length vc) \<and> ys = map (nth vc) xs"
  by (induction xs arbitrary: ys) (auto simp: bind_Inr_iff getitem_Inr_iff)

lemma face_coords_of_Inr_iff:
  "face_coords_of vc fl = Inr fc \<longleftrightarrow>
     length fc = length fl \<and>
     (\<forall>k < length fl. (\<forall>x \<in> set (fl ! k). x < length vc) \<and> fc ! k = map (nth vc) (fl ! k))"
  by (simp add: face_coords_of_def mapM_Inr_iff [of "mapM (getitem vc)"] mapM_getitem_Inr_iff)

lemma get_faces_loop_structure:
  "get_faces_loop env ps st = Inr st' \<Longrightarrow>
   \<exists>rs fls fcs.
     mapM (\<lambda>(i, j). face_setup (vtable st) (active st) (coxeter_matrix st) i j) ps = Inr rs \<and>
     st' = st\<lparr> face_indices := face_indices st @ fls, face_coords := face_coords st @ fcs \<rparr> \<and>
     length fls = length (filter (\<lambda>r. r \<noteq> None) rs) \<and> length fcs = length fls \<and>
     (\<forall>n < length fls. \<exists>ft.
        CosetTable env (symmetry_gens st) (symmetry_rels st)
          (Some (fst (the (filter (\<lambda>r. r \<noteq> None) rs ! n)))) None = Inr ft \<and>
        face_loop (vtable st) (snd (the (filter (\<lambda>r. r \<noteq> None) rs ! n))) (ct_words ft) [] =
          Inr (fls ! n) \<and>
        face_coords_of (vertex_coords st) (fls ! n) = Inr (fcs ! n))"
proof (induction ps arbitrary: st)
  case Nil
  then show ?case by simp
next
  case (Cons p ps)
  obtain i j where p: "p = (i, j)" by (cases p)
  from Cons.prems p obtain r where
    r: "face_setup (vtable st) (active st) (coxeter_matrix st) i j = Inr r"
    by (auto simp: bind_Inr_iff)
  show ?case
  proof (cases r)
    case None
    with Cons.prems p r have "get_faces_loop env ps st = Inr st'" by simp
    from Cons.IH [OF this] obtain rs fls fcs where
      rs: "mapM (\<lambda>(i, j). face_setup (vtable st) (active st) (coxeter_matrix st) i j) ps = Inr rs"
      and rest: "st' = st\<lparr> face_indices := face_indices st @ fls, face_coords := face_coords st @ fcs \<rparr>"
        "length fls = length (filter (\<lambda>r. r \<noteq> None) rs)" "length fcs = length fls"
        "\<forall>n < length fls. \<exists>ft.
          CosetTable env (symmetry_gens st) (symmetry_rels st)
            (Some (fst (the (filter (\<lambda>r. r \<noteq> None) rs ! n)))) None = Inr ft \<and>
          face_loop (vtable st) (snd (the (filter (\<lambda>r. r \<noteq> None) rs ! n))) (ct_words ft) [] =
            Inr (fls ! n) \<and>
          face_coords_of (vertex_coords st) (fls ! n) = Inr (fcs ! n)"
      by blast
    from rs r p None have
      "mapM (\<lambda>(i, j). face_setup (vtable st) (active st) (coxeter_matrix st) i j) (p # ps) =
         Inr (None # rs)"
      by simp
    with rest show ?thesis
      by (intro exI [of _ "None # rs"] exI [of _ fls] exI [of _ fcs]) simp
  next
    case (Some gf)
    obtain fgens f0 where gf: "gf = (fgens, f0)" by (cases gf)
    let ?st2 = "\<lambda>fl fc. st\<lparr> face_indices := face_indices st @ [fl],
                             face_coords := face_coords st @ [fc] \<rparr>"
    from Cons.prems p r Some gf obtain ft :: coset_table and fl fc where
      ft: "CosetTable env (symmetry_gens st) (symmetry_rels st) (Some fgens) None = Inr ft"
      and fl: "face_loop (vtable st) f0 (ct_words ft) [] = Inr fl"
      and fc: "face_coords_of (vertex_coords st) fl = Inr fc"
      and rest: "get_faces_loop env ps (?st2 fl fc) = Inr st'"
      by (auto simp: bind_Inr_iff face_orbit_def)
    from Cons.IH [OF rest] obtain rs fls fcs where
      rs: "mapM (\<lambda>(i, j). face_setup (vtable st) (active st) (coxeter_matrix st) i j) ps = Inr rs"
      and st': "st' = st\<lparr> face_indices := face_indices st @ fl # fls,
                            face_coords := face_coords st @ fc # fcs \<rparr>"
      and len: "length fls = length (filter (\<lambda>r. r \<noteq> None) rs)" "length fcs = length fls"
      and rel: "\<forall>n < length fls. \<exists>ft.
          CosetTable env (symmetry_gens st) (symmetry_rels st)
            (Some (fst (the (filter (\<lambda>r. r \<noteq> None) rs ! n)))) None = Inr ft \<and>
          face_loop (vtable st) (snd (the (filter (\<lambda>r. r \<noteq> None) rs ! n))) (ct_words ft) [] =
            Inr (fls ! n) \<and>
          face_coords_of (vertex_coords st) (fls ! n) = Inr (fcs ! n)"
      by auto
    let ?rs = "Some (fgens, f0) # rs"
    from rs r p Some gf have m:
      "mapM (\<lambda>(i, j). face_setup (vtable st) (active st) (coxeter_matrix st) i j) (p # ps) = Inr ?rs"
      by simp
    have "\<exists>ft.
          CosetTable env (symmetry_gens st) (symmetry_rels st)
            (Some (fst (the (filter (\<lambda>r. r \<noteq> None) ?rs ! n)))) None = Inr ft \<and>
          face_loop (vtable st) (snd (the (filter (\<lambda>r. r \<noteq> None) ?rs ! n))) (ct_words ft) [] =
            Inr ((fl # fls) ! n) \<and>
          face_coords_of (vertex_coords st) ((fl # fls) ! n) = Inr ((fc # fcs) ! n)"
      if n: "n < length (fl # fls)" for n
    proof (cases n)
      case 0
      with ft fl fc show ?thesis by simp
    next
      case (Suc k)
      with n rel show ?thesis by simp
    qed
    with m st' len show ?thesis
      by (intro exI [of _ ?rs] exI [of _ "fl # fls"] exI [of _ "fc # fcs"]) simp
  qed
qed


text \<open>
  C5. The case analysis of \<open>get_faces\<close> for a pair \<open>(i, j)\<close> of mirrors with
  \<open>m = coxeter_matrix[i][j]\<close>. If both mirrors are active, the subgroup generators are
  \<open>{(i, j)}\<close> and the base face has two entries for each \<open>k\<close> in \<open>range(m)\<close>, the vertices
  \<open>move(0, (i, j) * k)\<close> and \<open>move(0, (j,) + (i, j) * k)\<close> in this order (\<open>2 m\<close> entries for
  \<open>m \<ge> 0\<close>). If exactly one mirror is active and \<open>m > 2\<close>, the generators are \<open>(i, j)\<close> and
  the one-letter word of the active mirror, and the base face has the \<open>m\<close> entries
  \<open>move(0, (i, j) * k)\<close>. In every other case there is no face type for the pair.

  Whenever \<open>get_faces\<close> returns, this analysis has been made for every pair of
  \<open>combinations(symmetry_gens, 2)\<close>, and \<open>face_indices\<close> and \<open>face_coords\<close> have grown by
  exactly one list for each pair that has a face type, in the order of the pairs, and by
  none for the others. The list of a pair comes from the enumeration requested modulo the
  subgroup generated by its generators: each word of that enumeration moves every vertex of
  the base face through the action table of the vertex stage, and the list is what the
  avoid-duplicates step keeps of these images; the coordinates are read from
  \<open>vertex_coords\<close>.
\<close>

theorem face_case_analysis:
  assumes "getitem (active st) i = Inr ai"
    and "getitem (active st) j = Inr aj"
    and "cox (coxeter_matrix st) i j = Inr m"
  shows "face_setup (vtable st) (active st) (coxeter_matrix st) i j =
           (if ai \<and> aj then
              bind (f0_both (vtable st) i j m) (\<lambda>f0. Inr (Some ([[i, j]], f0)))
            else if ai \<and> 2 < m then
              bind (f0_one (vtable st) i j m) (\<lambda>f0. Inr (Some ([[i, j], [i]], f0)))
            else if aj \<and> 2 < m then
              bind (f0_one (vtable st) i j m) (\<lambda>f0. Inr (Some ([[i, j], [j]], f0)))
            else Inr None) \<and>
         (\<forall>f0. f0_both (vtable st) i j m = Inr f0 \<longleftrightarrow>
            length f0 = 2 * nat m \<and>
            (\<forall>k < nat m.
               move (vtable st) 0 (tuple_mul [i, j] (int k)) = Inr (f0 ! (2 * k)) \<and>
               move (vtable st) 0 (j # tuple_mul [i, j] (int k)) = Inr (f0 ! (2 * k + 1)))) \<and>
         (\<forall>f0. f0_one (vtable st) i j m = Inr f0 \<longleftrightarrow>
            length f0 = nat m \<and>
            (\<forall>k < nat m. move (vtable st) 0 (tuple_mul [i, j] (int k)) = Inr (f0 ! k))) \<and>
         (get_faces env st = Inr st' \<longrightarrow>
            (\<exists>rs fls fcs.
               mapM (\<lambda>(i, j). face_setup (vtable st) (active st) (coxeter_matrix st) i j)
                 (combinations2 (symmetry_gens st)) = Inr rs \<and>
               face_indices st' = face_indices st @ fls \<and>
               face_coords st' = face_coords st @ fcs \<and>
               num_faces st' = Some (sum_list (map length (face_indices st'))) \<and>
               length fls = length (filter (\<lambda>r. r \<noteq> None) rs) \<and>
               length fcs = length fls \<and>
               (\<forall>n < length fls. \<exists>ft imgs.
                  CosetTable env (symmetry_gens st) (symmetry_rels st)
                    (Some (fst (the (filter (\<lambda>r. r \<noteq> None) rs ! n)))) None = Inr ft \<and>
                  length imgs = length (ct_words ft) \<and>
                  (\<forall>k < length (ct_words ft).
                     length (imgs ! k) = length (snd (the (filter (\<lambda>r. r \<noteq> None) rs ! n))) \<and>
                     (\<forall>t < length (snd (the (filter (\<lambda>r. r \<noteq> None) rs ! n))).
                        move (vtable st) (snd (the (filter (\<lambda>r. r \<noteq> None) rs ! n)) ! t)
                          (ct_words ft ! k) = Inr (imgs ! k ! t))) \<and>
                  fls ! n = foldl add_face [] imgs \<and>
                  length (fcs ! n) = length (fls ! n) \<and>
                  (\<forall>k < length (fls ! n).
                     (\<forall>x \<in> set (fls ! n ! k). x < length (vertex_coords st)) \<and>
                     fcs ! n ! k = map (nth (vertex_coords st)) (fls ! n ! k)))))"
proof (intro conjI impI)
  show "face_setup (vtable st) (active st) (coxeter_matrix st) i j =
           (if ai \<and> aj then
              bind (f0_both (vtable st) i j m) (\<lambda>f0. Inr (Some ([[i, j]], f0)))
            else if ai \<and> 2 < m then
              bind (f0_one (vtable st) i j m) (\<lambda>f0. Inr (Some ([[i, j], [i]], f0)))
            else if aj \<and> 2 < m then
              bind (f0_one (vtable st) i j m) (\<lambda>f0. Inr (Some ([[i, j], [j]], f0)))
            else Inr None)"
    by (simp add: face_setup_def py_and_def assms)
  show "\<forall>f0. f0_both (vtable st) i j m = Inr f0 \<longleftrightarrow>
            length f0 = 2 * nat m \<and>
            (\<forall>k < nat m.
               move (vtable st) 0 (tuple_mul [i, j] (int k)) = Inr (f0 ! (2 * k)) \<and>
               move (vtable st) 0 (j # tuple_mul [i, j] (int k)) = Inr (f0 ! (2 * k + 1)))"
    using f0_both_Inr_iff by blast
  show "\<forall>f0. f0_one (vtable st) i j m = Inr f0 \<longleftrightarrow>
            length f0 = nat m \<and>
            (\<forall>k < nat m. move (vtable st) 0 (tuple_mul [i, j] (int k)) = Inr (f0 ! k))"
    using f0_one_Inr_iff by blast
next
  assume "get_faces env st = Inr st'"
  then obtain s1 where
    loop: "get_faces_loop env (combinations2 (symmetry_gens st)) st = Inr s1"
    and st': "st' = s1\<lparr> num_faces := Some (sum_list (map length (face_indices s1))) \<rparr>"
    by (auto simp: get_faces_def bind_Inr_iff)
  from get_faces_loop_structure [OF loop] obtain rs fls fcs where
    rs: "mapM (\<lambda>(i, j). face_setup (vtable st) (active st) (coxeter_matrix st) i j)
           (combinations2 (symmetry_gens st)) = Inr rs"
    and s1: "s1 = st\<lparr> face_indices := face_indices st @ fls, face_coords := face_coords st @ fcs \<rparr>"
    and len: "length fls = length (filter (\<lambda>r. r \<noteq> None) rs)" "length fcs = length fls"
    and rel: "\<forall>n < length fls. \<exists>ft.
        CosetTable env (symmetry_gens st) (symmetry_rels st)
          (Some (fst (the (filter (\<lambda>r. r \<noteq> None) rs ! n)))) None = Inr ft \<and>
        face_loop (vtable st) (snd (the (filter (\<lambda>r. r \<noteq> None) rs ! n))) (ct_words ft) [] =
          Inr (fls ! n) \<and>
        face_coords_of (vertex_coords st) (fls ! n) = Inr (fcs ! n)"
    by blast
  from rel have rel': "\<forall>n < length fls. \<exists>ft imgs.
        CosetTable env (symmetry_gens st) (symmetry_rels st)
          (Some (fst (the (filter (\<lambda>r. r \<noteq> None) rs ! n)))) None = Inr ft \<and>
        length imgs = length (ct_words ft) \<and>
        (\<forall>k < length (ct_words ft).
           length (imgs ! k) = length (snd (the (filter (\<lambda>r. r \<noteq> None) rs ! n))) \<and>
           (\<forall>t < length (snd (the (filter (\<lambda>r. r \<noteq> None) rs ! n))).
              move (vtable st) (snd (the (filter (\<lambda>r. r \<noteq> None) rs ! n)) ! t)
                (ct_words ft ! k) = Inr (imgs ! k ! t))) \<and>
        fls ! n = foldl add_face [] imgs \<and>
        length (fcs ! n) = length (fls ! n) \<and>
        (\<forall>k < length (fls ! n).
           (\<forall>x \<in> set (fls ! n ! k). x < length (vertex_coords st)) \<and>
           fcs ! n ! k = map (nth (vertex_coords st)) (fls ! n ! k))"
    unfolding face_loop_Inr_iff mapM_Inr_iff face_coords_of_Inr_iff by blast
  show "\<exists>rs fls fcs.
               mapM (\<lambda>(i, j). face_setup (vtable st) (active st) (coxeter_matrix st) i j)
                 (combinations2 (symmetry_gens st)) = Inr rs \<and>
               face_indices st' = face_indices st @ fls \<and>
               face_coords st' = face_coords st @ fcs \<and>
               num_faces st' = Some (sum_list (map length (face_indices st'))) \<and>
               length fls = length (filter (\<lambda>r. r \<noteq> None) rs) \<and>
               length fcs = length fls \<and>
               (\<forall>n < length fls. \<exists>ft imgs.
                  CosetTable env (symmetry_gens st) (symmetry_rels st)
                    (Some (fst (the (filter (\<lambda>r. r \<noteq> None) rs ! n)))) None = Inr ft \<and>
                  length imgs = length (ct_words ft) \<and>
                  (\<forall>k < length (ct_words ft).
                     length (imgs ! k) = length (snd (the (filter (\<lambda>r. r \<noteq> None) rs ! n))) \<and>
                     (\<forall>t < length (snd (the (filter (\<lambda>r. r \<noteq> None) rs ! n))).
                        move (vtable st) (snd (the (filter (\<lambda>r. r \<noteq> None) rs ! n)) ! t)
                          (ct_words ft ! k) = Inr (imgs ! k ! t))) \<and>
                  fls ! n = foldl add_face [] imgs \<and>
                  length (fcs ! n) = length (fls ! n) \<and>
                  (\<forall>k < length (fls ! n).
                     (\<forall>x \<in> set (fls ! n ! k). x < length (vertex_coords st)) \<and>
                     fcs ! n ! k = map (nth (vertex_coords st)) (fls ! n ! k)))"
    using rs len rel' by (intro exI [of _ rs] exI [of _ fls] exI [of _ fcs]) (simp add: st' s1)
qed

theorem face_case_analysis_witness:
  "face_setup (vtable tetra_state2) (active tetra_state2) (coxeter_matrix tetra_state2) 0 1 =
     Inr (Some ([[0, 1], [0]], [0, 2, 1])) \<and>
   get_faces tetra_env tetra_state2 = Inr tetra_state3 \<and>
   face_indices tetra_state3 = [[[0, 2, 1], [0, 3, 1], [0, 3, 2], [1, 3, 2]]] \<and>
   face_setup (vtable square_state) (active square_state) (coxeter_matrix square_state) 0 1 =
     Inr (Some ([[0, 1]], [0, 2, 3, 1])) \<and>
   get_faces square_env square_state = Inr square_state3 \<and>
   face_indices square_state3 = [[[0, 2, 3, 1]]] \<and>
   face_setup (vtable octa_state1) (active octa_state1) (coxeter_matrix octa_state1) 0 1 =
     Inr (Some ([[0, 1], [1]], [0, 1, 2])) \<and>
   face_setup (vtable octa_state1) (active octa_state1) (coxeter_matrix octa_state1) 0 2 =
     Inr None \<and>
   face_setup (vtable octa_state1) (active octa_state1) (coxeter_matrix octa_state1) 1 2 =
     Inr (Some ([[1, 2], [1]], [0, 3, 1])) \<and>
   get_faces octa_env octa_state1 = Inr octa_state3 \<and>
   length (face_indices octa_state3) = 2 \<and>
   face_indices octa_state3 ! 0 = [[0, 1, 2], [0, 3, 4], [1, 3, 5], [2, 4, 5]] \<and>
   face_indices octa_state3 ! 1 = [[0, 3, 1], [0, 4, 2], [1, 5, 2], [3, 5, 4]]"
proof -
  have t: "getitem (active tetra_state2) 0 = Inr True"
    "getitem (active tetra_state2) 1 = Inr False"
    "cox (coxeter_matrix tetra_state2) 0 1 = Inr 3"
    by (simp_all add: tetra_state2_def tetra_state1_def tetra_state0_def getitem_def cox_def)
  have tf: "f0_one (vtable tetra_state2) 0 1 3 = Inr [0, 2, 1]"
    by (simp add: f0_one_def tetra_state2_def tetra_state1_def tetra_state0_def getitem_def
        upt_conv_Cons tuple_mul_0 tuple_mul_1 tuple_mul_2 cong: bind_cong_weak)
  have tetra: "face_setup (vtable tetra_state2) (active tetra_state2) (coxeter_matrix tetra_state2) 0 1 =
     Inr (Some ([[0, 1], [0]], [0, 2, 1]))"
    unfolding face_case_analysis [OF t, of tetra_env tetra_state3, THEN conjunct1] tf by simp
  have s: "getitem (active square_state) 0 = Inr True"
    "getitem (active square_state) 1 = Inr True"
    "cox (coxeter_matrix square_state) 0 1 = Inr 2"
    by (simp_all add: square_state_def getitem_def cox_def)
  have sf: "f0_both (vtable square_state) 0 1 2 = Inr [0, 2, 3, 1]"
    by (simp add: f0_both_def square_state_def getitem_def
        upt_conv_Cons tuple_mul_0 tuple_mul_1 cong: bind_cong_weak)
  have square: "face_setup (vtable square_state) (active square_state) (coxeter_matrix square_state) 0 1 =
     Inr (Some ([[0, 1]], [0, 2, 3, 1]))"
    unfolding face_case_analysis [OF s, of square_env square_state3, THEN conjunct1] sf by simp
  have a: "getitem (active octa_state1) 0 = Inr False"
    "getitem (active octa_state1) 1 = Inr True"
    "getitem (active octa_state1) 2 = Inr False"
    and c: "cox (coxeter_matrix octa_state1) 0 1 = Inr 3"
    "cox (coxeter_matrix octa_state1) 0 2 = Inr 2"
    "cox (coxeter_matrix octa_state1) 1 2 = Inr 3"
    by (simp_all add: octa_state1_def tetra_state0_def getitem_def cox_def)
  have of01: "f0_one (vtable octa_state1) 0 1 3 = Inr [0, 1, 2]"
    and of12: "f0_one (vtable octa_state1) 1 2 3 = Inr [0, 3, 1]"
    by (simp_all add: f0_one_def octa_state1_def tetra_state0_def getitem_def
        upt_conv_Cons tuple_mul_0 tuple_mul_1 tuple_mul_2 cong: bind_cong_weak)
  note o01 = face_case_analysis [OF a(1) a(2) c(1), of octa_env octa_state3]
  have octa01: "face_setup (vtable octa_state1) (active octa_state1) (coxeter_matrix octa_state1) 0 1 =
     Inr (Some ([[0, 1], [1]], [0, 1, 2]))"
    unfolding o01 [THEN conjunct1] of01 by simp
  have octa02: "face_setup (vtable octa_state1) (active octa_state1) (coxeter_matrix octa_state1) 0 2 =
     Inr None"
    unfolding face_case_analysis [OF a(1) a(3) c(2), of octa_env octa_state3, THEN conjunct1]
    by simp
  have octa12: "face_setup (vtable octa_state1) (active octa_state1) (coxeter_matrix octa_state1) 1 2 =
     Inr (Some ([[1, 2], [1]], [0, 3, 1]))"
    unfolding face_case_analysis [OF a(2) a(3) c(3), of octa_env octa_state3, THEN conjunct1] of12
    by simp
  have gens: "combinations2 (symmetry_gens octa_state1) = [(0, 1), (0, 2), (1, 2)]"
    by (simp add: octa_state1_def tetra_state0_def)
  have all: "mapM (\<lambda>(i, j). face_setup (vtable octa_state1) (active octa_state1)
                (coxeter_matrix octa_state1) i j) (combinations2 (symmetry_gens octa_state1)) =
      Inr [Some ([[0, 1], [1]], [0, 1, 2]), None, Some ([[1, 2], [1]], [0, 3, 1])]"
    unfolding gens using octa01 octa02 octa12 by simp
  have old: "face_indices octa_state1 = []"
    by (simp add: octa_state1_def tetra_state0_def)
  from o01 octa_get_faces obtain rs fls where
    "mapM (\<lambda>(i, j). face_setup (vtable octa_state1) (active octa_state1)
                (coxeter_matrix octa_state1) i j) (combinations2 (symmetry_gens octa_state1)) = Inr rs"
    "face_indices octa_state3 = face_indices octa_state1 @ fls"
    "length fls = length (filter (\<lambda>r. r \<noteq> None) rs)"
    by blast
  with all old have two: "length (face_indices octa_state3) = 2" by simp
  have lists: "face_indices tetra_state3 = [[[0, 2, 1], [0, 3, 1], [0, 3, 2], [1, 3, 2]]]"
    "face_indices square_state3 = [[[0, 2, 3, 1]]]"
    "face_indices octa_state3 ! 0 = [[0, 1, 2], [0, 3, 4], [1, 3, 5], [2, 4, 5]]"
    "face_indices octa_state3 ! 1 = [[0, 3, 1], [0, 4, 2], [1, 5, 2], [3, 5, 4]]"
    by (simp_all add: tetra_state3_def square_state3_def octa_state3_def)
  from tetra square octa01 octa02 octa12 two lists tetra_get_faces square_get_faces octa_get_faces
  show ?thesis by (simp only: simp_thms)
qed

subsection \<open>The constructors\<close>

text \<open>
  C7. The constructor for polychora is meant to raise when it is not given six integers and
  four distances. Its condition reads \<open>not len(upper_triangle) == 6 and len(init_dist) == 4\<close>,
  so with six integers it never raises: given six integers and three distances it goes on
  to \<open>BasePolytope.__init__\<close>, where the constructor for polyhedra raises on such a
  mismatch.
\<close>

theorem Polychora_init_three_distances:
  "Polychora_init env [5, 2, 2, 3, 2, 3] [1, 0, 0] =
     BasePolytope_init env [5, 2, 2, 3, 2, 3] [1, 0, 0] \<and>
   Polyhedra_init env [5, 2, 2, 3, 2, 3] [1, 0, 0] = Inl ValueError"
  by (simp add: Polychora_init_def Polyhedra_init_def)

lemma set_combinations2_upt:
  "set (combinations2 [a..<n]) = {(i, j). a \<le> i \<and> i < j \<and> j < n}"
proof (induction "n - a" arbitrary: a)
  case 0
  then show ?case by simp
next
  case (Suc d)
  then have lt: "a < n" and d: "d = n - Suc a" by simp_all
  from lt have "[a..<n] = a # [Suc a..<n]" by (simp add: upt_conv_Cons)
  then have "set (combinations2 [a..<n]) =
      Pair a ` {Suc a..<n} \<union> {(i, j). Suc a \<le> i \<and> i < j \<and> j < n}"
    using Suc.hyps(1) [OF d] by simp
  also have "\<dots> = {(i, j). a \<le> i \<and> i < j \<and> j < n}"
  proof (rule set_eqI)
    fix x :: "nat \<times> nat"
    obtain i j where x: "x = (i, j)" by (cases x)
    have "(i = a \<and> Suc a \<le> j \<and> j < n \<or> Suc a \<le> i \<and> i < j \<and> j < n) \<longleftrightarrow>
          (a \<le> i \<and> i < j \<and> j < n)"
      by arith
    then show "x \<in> Pair a ` {Suc a..<n} \<union> {(i, j). Suc a \<le> i \<and> i < j \<and> j < n} \<longleftrightarrow>
               x \<in> {(i, j). a \<le> i \<and> i < j \<and> j < n}"
      unfolding x by (simp add: image_iff)
  qed
  finally show ?case .
qed

lemma tuple_mul_pair_not_double:
  assumes "a \<noteq> b"
  shows "tuple_mul [a, b] m \<noteq> [i, i]"
proof (cases "nat m")
  case 0
  then show ?thesis by (simp add: tuple_mul_def)
next
  case (Suc k)
  with assms show ?thesis by (auto simp: tuple_mul_def)
qed

lemma BasePolytope_init_Inr_iff:
  "BasePolytope_init env ut init_dist = Inr st \<longleftrightarrow>
     (\<exists>rels. mapM (\<lambda>(i, j). bind (cox (get_coxeter_matrix env ut) i j) (\<lambda>m. Inr (tuple_mul [i, j] m)))
               (combinations2 [0..<length (get_coxeter_matrix env ut)]) = Inr rels \<and>
       st = \<lparr> coxeter_matrix = get_coxeter_matrix env ut,
              mirrors = get_mirrors env ut,
              reflections = map (reflection_matrix env) (get_mirrors env ut),
              init_v = get_init_point env (get_mirrors env ut) init_dist,
              active = map (\<lambda>x. x \<noteq> 0) init_dist,
              symmetry_gens = [0..<length (get_coxeter_matrix env ut)],
              symmetry_rels = rels,
              vtable = None, vwords = None, num_vertices = None, vertex_coords = [],
              num_edges = None, edge_indices = [], edge_coords = [],
              num_faces = None, face_indices = [], face_coords = [],
              rotations = None \<rparr>)"
  unfolding BasePolytope_init_def Let_def bind_Inr_iff by auto

lemma init_rels:
  assumes "mapM (\<lambda>(i, j). bind (cox cm i j) (\<lambda>m. Inr (tuple_mul [i, j] m))) ps = Inr rels"
  shows "rels = map (\<lambda>(i, j). tuple_mul [i, j] (cm ! i ! j)) ps \<and>
         (\<forall>(i, j) \<in> set ps. i < length cm \<and> j < length (cm ! i))"
proof -
  from assms have len: "length rels = length ps"
    and each: "\<forall>k < length ps. bind (cox cm (fst (ps ! k)) (snd (ps ! k)))
                  (\<lambda>m. Inr (tuple_mul [fst (ps ! k), snd (ps ! k)] m)) = Inr (rels ! k)"
    unfolding mapM_Inr_iff by (simp_all add: case_prod_unfold)
  have k: "fst (ps ! k) < length cm \<and> snd (ps ! k) < length (cm ! fst (ps ! k)) \<and>
        rels ! k = tuple_mul [fst (ps ! k), snd (ps ! k)] (cm ! fst (ps ! k) ! snd (ps ! k))"
    if "k < length ps" for k
    using each that by (auto simp: bind_Inr_iff cox_def getitem_Inr_iff)
  have "rels = map (\<lambda>(i, j). tuple_mul [i, j] (cm ! i ! j)) ps"
    using len k by (intro nth_equalityI) (simp_all add: case_prod_unfold)
  moreover have "\<forall>(i, j) \<in> set ps. i < length cm \<and> j < length (cm ! i)"
    using k by (auto simp: in_set_conv_nth) (metis fst_conv snd_conv)+
  ultimately show ?thesis by blast
qed

text \<open>
  C8 (amended). Whenever the constructor returns, the generators are \<open>0, \<dots>, n - 1\<close> for the
  \<open>n\<close> rows of the Coxeter matrix, and the relations are the words \<open>(i, j)\<close> repeated
  \<open>m[i][j]\<close> times, one for each pair \<open>i < j\<close>, in lexicographic order of the pairs. No
  word \<open>(i, i)\<close> is among the relations: that the generators are involutions is left to
  the enumeration, which is called without its \<open>coxeter\<close> argument.
\<close>

theorem symmetry_presentation:
  assumes "BasePolytope_init env ut init_dist = Inr st"
  shows "coxeter_matrix st = get_coxeter_matrix env ut \<and>
         symmetry_gens st = [0..<length (coxeter_matrix st)] \<and>
         symmetry_rels st =
           map (\<lambda>(i, j). tuple_mul [i, j] (coxeter_matrix st ! i ! j))
             (combinations2 [0..<length (coxeter_matrix st)]) \<and>
         set (combinations2 [0..<length (coxeter_matrix st)]) =
           {(i, j). i < j \<and> j < length (coxeter_matrix st)} \<and>
         (\<forall>i. [i, i] \<notin> set (symmetry_rels st))"
proof -
  let ?cm = "get_coxeter_matrix env ut"
  from assms obtain rels where
    m: "mapM (\<lambda>(i, j). bind (cox ?cm i j) (\<lambda>m. Inr (tuple_mul [i, j] m)))
               (combinations2 [0..<length ?cm]) = Inr rels"
    and st: "coxeter_matrix st = ?cm" "symmetry_gens st = [0..<length ?cm]" "symmetry_rels st = rels"
    unfolding BasePolytope_init_Inr_iff by auto
  from init_rels [OF m] have
    rels: "rels = map (\<lambda>(i, j). tuple_mul [i, j] (?cm ! i ! j)) (combinations2 [0..<length ?cm])"
    by blast
  have pairs: "set (combinations2 [0..<length ?cm]) = {(i, j). i < j \<and> j < length ?cm}"
    using set_combinations2_upt [of 0 "length ?cm"] by simp
  have "[i, i] \<notin> set rels" for i
  proof
    assume "[i, i] \<in> set rels"
    with rels pairs obtain a b where "a < b" "tuple_mul [a, b] (?cm ! a ! b) = [i, i]"
      by auto
    with tuple_mul_pair_not_double [of a b] show False by simp
  qed
  with st rels pairs show ?thesis by simp
qed


lemma tetra_base_init: "BasePolytope_init tetra_env [3, 2, 3] [1, 0, 0] = Inr tetra_state0"
  using tetra_init by (simp add: Polyhedra_init_def)

theorem symmetry_presentation_witness:
  "BasePolytope_init tetra_env [3, 2, 3] [1, 0, 0] = Inr tetra_state0 \<and>
   symmetry_gens tetra_state0 = [0, 1, 2] \<and>
   symmetry_rels tetra_state0 = [[0, 1, 0, 1, 0, 1], [0, 2, 0, 2], [1, 2, 1, 2, 1, 2]] \<and>
   [0, 0] \<notin> set (symmetry_rels tetra_state0)"
proof -
  from symmetry_presentation [OF tetra_base_init]
  have "[0, 0] \<notin> set (symmetry_rels tetra_state0)" by blast
  moreover have "symmetry_gens tetra_state0 = [0, 1, 2]"
    "symmetry_rels tetra_state0 = [[0, 1, 0, 1, 0, 1], [0, 2, 0, 2], [1, 2, 1, 2, 1, 2]]"
    by (simp_all add: tetra_state0_def)
  ultimately show ?thesis using tetra_base_init by simp
qed

text \<open>
  The relations of the tetrahedral group as the constructor builds them: none of the words
  \<open>(0, 0)\<close>, \<open>(1, 1)\<close>, \<open>(2, 2)\<close> is among them.
\<close>

theorem involution_relations_counterexample:
  "BasePolytope_init tetra_env [3, 2, 3] [1, 0, 0] = Inr tetra_state0 \<and>
   symmetry_gens tetra_state0 = [0, 1, 2] \<and>
   [0, 0] \<notin> set (symmetry_rels tetra_state0) \<and>
   [1, 1] \<notin> set (symmetry_rels tetra_state0) \<and>
   [2, 2] \<notin> set (symmetry_rels tetra_state0)"
  using tetra_base_init by (simp add: tetra_state0_def)

subsection \<open>The snub variant: presentation and coordinates\<close>

lemma tuple_mul_single: "tuple_mul [g] m = replicate (nat m) g"
  by (induction "nat m" arbitrary: m) (auto simp: tuple_mul_def)

lemma snub_get_vertices_Inr_iff:
  "snub_get_vertices env st = Inr st' \<longleftrightarrow>
     (\<exists>ct coords.
        CosetTable env (symmetry_gens st) (symmetry_rels st) None (Some False) = Inr ct \<and>
        mapM (snub_transform env (reflections st) (init_v st)) (ct_words ct) = Inr coords \<and>
        st' = st\<lparr> vtable := Some (ct_rows ct), vwords := Some (ct_words ct),
                   num_vertices := Some (length (ct_words ct)), vertex_coords := coords \<rparr>)"
  unfolding snub_get_vertices_def bind_Inr_iff by auto

text \<open>
  C9 (amended). Whenever the constructor of the snub variant returns, the generators are
  \<open>0, 1, 2, 3\<close>, standing for \<open>r\<close>, its inverse, \<open>s\<close> and its inverse, and the relations are
  \<open>r\<^sup>p\<close>, \<open>s\<^sup>q\<close> and \<open>(r s)\<^sup>t\<close> with \<open>p = m[0][1]\<close>, \<open>q = m[1][2]\<close> and \<open>t = m[0][2]\<close> read off the
  Coxeter matrix, followed by the words \<open>(0, 1)\<close> and \<open>(2, 3)\<close> that pair each rotation with
  its inverse. Whenever its \<open>get_vertices\<close> returns, one enumeration of this presentation
  was run, with no subgroup generators and \<open>coxeter=False\<close>, and \<open>num_vertices\<close> is the
  number of its words, as is the number of coordinates.
\<close>

theorem snub_presentation:
  "(Snub_init env ut init_dist = Inr st \<longrightarrow>
      symmetry_gens st = [0, 1, 2, 3] \<and>
      (\<exists>p q r.
         cox (get_coxeter_matrix env ut) 0 1 = Inr p \<and>
         cox (get_coxeter_matrix env ut) 1 2 = Inr q \<and>
         cox (get_coxeter_matrix env ut) 0 2 = Inr r \<and>
         symmetry_rels st =
           [replicate (nat p) 0, replicate (nat q) 2, concat (replicate (nat r) [0, 2]),
            [0, 1], [2, 3]] \<and>
         rotations st = Some [([0], p), ([2], q), ([0, 2], r)])) \<and>
   (snub_get_vertices env st = Inr st' \<longrightarrow>
      (\<exists>ct. CosetTable env (symmetry_gens st) (symmetry_rels st) None (Some False) = Inr ct \<and>
            vwords st' = Some (ct_words ct) \<and>
            num_vertices st' = Some (length (ct_words ct)) \<and>
            length (vertex_coords st') = length (ct_words ct)))"
proof (intro conjI impI)
  assume "snub_get_vertices env st = Inr st'"
  then show "\<exists>ct. CosetTable env (symmetry_gens st) (symmetry_rels st) None (Some False) = Inr ct \<and>
            vwords st' = Some (ct_words ct) \<and>
            num_vertices st' = Some (length (ct_words ct)) \<and>
            length (vertex_coords st') = length (ct_words ct)"
    unfolding snub_get_vertices_Inr_iff mapM_Inr_iff by auto
next
  assume init: "Snub_init env ut init_dist = Inr st"
  then obtain s0 p q r where
    s0: "BasePolytope_init env ut init_dist = Inr s0"
    and pqr: "cox (coxeter_matrix s0) 0 1 = Inr p" "cox (coxeter_matrix s0) 1 2 = Inr q"
      "cox (coxeter_matrix s0) 0 2 = Inr r"
    and st: "st = s0\<lparr> symmetry_gens := [0, 1, 2, 3],
                symmetry_rels := [tuple_mul [0] p, tuple_mul [2] q, tuple_mul [0, 2] r,
                                  [0, 1], [2, 3]],
                rotations := Some [([0], p), ([2], q), ([0, 2], r)] \<rparr>"
    by (auto simp: Snub_init_def Polyhedra_init_def bind_Inr_iff split: if_splits)
  from s0 have cm: "coxeter_matrix s0 = get_coxeter_matrix env ut"
    unfolding BasePolytope_init_Inr_iff by auto
  from st show "symmetry_gens st = [0, 1, 2, 3]" by simp
  from st pqr cm show "\<exists>p q r.
         cox (get_coxeter_matrix env ut) 0 1 = Inr p \<and>
         cox (get_coxeter_matrix env ut) 1 2 = Inr q \<and>
         cox (get_coxeter_matrix env ut) 0 2 = Inr r \<and>
         symmetry_rels st =
           [replicate (nat p) 0, replicate (nat q) 2, concat (replicate (nat r) [0, 2]),
            [0, 1], [2, 3]] \<and>
         rotations st = Some [([0], p), ([2], q), ([0, 2], r)]"
    by (simp add: tuple_mul_single) (simp add: tuple_mul_def)
qed


theorem snub_presentation_witness:
  "Snub_init tetra_env [3, 2, 3] Snub_default_dist = Inr snub_state0 \<and>
   snub_get_vertices tetra_env snub_state0 = Inr snub_state1 \<and>
   symmetry_gens snub_state0 = [0, 1, 2, 3] \<and>
   symmetry_rels snub_state0 = [[0, 0, 0], [2, 2, 2], [0, 2, 0, 2], [0, 1], [2, 3]] \<and>
   num_vertices snub_state1 = Some (length (ct_words tetra_rotation_table)) \<and>
   length (ct_words tetra_rotation_table) = 12"
proof -
  have enum: "CosetTable tetra_env gens rels None (Some False) = Inr tetra_rotation_table"
    for gens rels
    by (simp add: tetra_env_def tetra_CosetTable_def)
  from snub_presentation [of tetra_env "[3, 2, 3]" Snub_default_dist snub_state0 snub_state1]
    snub_init snub_vertices
  have "symmetry_gens snub_state0 = [0, 1, 2, 3]"
    "num_vertices snub_state1 = Some (length (ct_words tetra_rotation_table))"
    by (auto simp: enum)
  moreover have "symmetry_rels snub_state0 = [[0, 0, 0], [2, 2, 2], [0, 2, 0, 2], [0, 1], [2, 3]]"
    by (simp add: snub_state0_def)
  moreover have "length (ct_words tetra_rotation_table) = 12"
    by (simp add: tetra_rotation_table_def)
  ultimately show ?thesis using snub_init snub_vertices by simp
qed

text \<open>
  For the diagram \<open>(2, 3, 3)\<close>, where the first and the third mirror do not commute, the
  third relation is \<open>(r s)\<^sup>3\<close>, not \<open>(r s)\<^sup>2\<close>.
\<close>

theorem snub_rs_relation_counterexample:
  "(case Snub_init tetra_env [2, 3, 3] Snub_default_dist of
      Inl e \<Rightarrow> [] | Inr st \<Rightarrow> symmetry_rels st) =
     [[0, 0], [2, 2, 2], [0, 2, 0, 2, 0, 2], [0, 1], [2, 3]]"
  by (simp add: Snub_init_def Snub_default_dist_def Polyhedra_init_def BasePolytope_init_def
      tetra_env_def upper_to_matrix_def cox_def getitem_def tuple_mul_def upt_conv_Cons
      eval_nat_numeral cong: bind_cong_weak)

lemma snub_transform_letters:
  "snub_transform env R v (map (\<lambda>g. if g = 0 then 0 else 2) w) = snub_transform env R v w"
  by (induction w arbitrary: v) simp_all

lemma snub_transform_foldl:
  assumes "3 \<le> length R"
  shows "snub_transform env R v w =
     Inr (foldl (\<lambda>x g. if g = 0 then np_dot env (np_dot env x (R ! 0)) (R ! 1)
                         else np_dot env (np_dot env x (R ! 1)) (R ! 2)) v w)"
proof -
  from assms have l: "R \<noteq> []" "Suc 0 < length R" "2 < length R" by auto
  show ?thesis
    by (induction w arbitrary: v) (simp_all add: getitem_def l)
qed

text \<open>
  C10. In the snub variant a letter \<open>0\<close> of a word multiplies the vector by the first and
  then by the second reflection matrix; every other letter, \<open>1\<close>, \<open>2\<close> and \<open>3\<close> alike,
  multiplies it by the second and then by the third. So replacing every non-zero letter of
  a word by \<open>2\<close> does not change the result: the letters of the two inverses are realized
  as \<open>s\<close> is, not as inverse transforms.
\<close>

theorem snub_transform_pairs:
  "snub_transform env R v (map (\<lambda>g. if g = 0 then 0 else 2) w) = snub_transform env R v w \<and>
   (3 \<le> length R \<longrightarrow>
      snub_transform env R v w =
        Inr (foldl (\<lambda>x g. if g = 0 then np_dot env (np_dot env x (R ! 0)) (R ! 1)
                            else np_dot env (np_dot env x (R ! 1)) (R ! 2)) v w))"
  by (simp add: snub_transform_letters snub_transform_foldl)

theorem snub_transform_pairs_witness:
  "3 \<le> length (reflections snub_state0) \<and>
   snub_transform tetra_env (reflections snub_state0) [1, -2, -3] [0] = Inr [-2, -3, 1] \<and>
   snub_transform tetra_env (reflections snub_state0) [1, -2, -3] [2] = Inr [3, -1, -2] \<and>
   snub_transform tetra_env (reflections snub_state0) [1, -2, -3] [3] = Inr [3, -1, -2] \<and>
   snub_transform tetra_env (reflections snub_state0) [1, -2, -3] [1] = Inr [3, -1, -2]"
proof -
  have len: "3 \<le> length (reflections snub_state0)"
    by (simp add: snub_state0_def tetra_state0_def)
  have dot: "np_dot tetra_env = vecmat" by (simp add: tetra_env_def)
  have R: "reflections snub_state0 ! 0 = [[0, 1, 0], [1, 0, 0], [0, 0, 1]]"
    "reflections snub_state0 ! 1 = [[1, 0, 0], [0, 0, 1], [0, 1, 0]]"
    "reflections snub_state0 ! 2 = [[0, -1, 0], [-1, 0, 0], [0, 0, 1]]"
    by (simp_all add: snub_state0_def tetra_state0_def)
  from snub_transform_pairs [of tetra_env "reflections snub_state0" "[1, -2, -3]"] len
  have eq: "snub_transform tetra_env (reflections snub_state0) [1, -2, -3] w =
        Inr (foldl (\<lambda>x g. if g = 0
               then vecmat (vecmat x (reflections snub_state0 ! 0)) (reflections snub_state0 ! 1)
               else vecmat (vecmat x (reflections snub_state0 ! 1)) (reflections snub_state0 ! 2))
             [1, -2, -3] w)" for w
    unfolding dot by blast
  have "snub_transform tetra_env (reflections snub_state0) [1, -2, -3] [0] = Inr [-2, -3, 1]"
    "snub_transform tetra_env (reflections snub_state0) [1, -2, -3] [2] = Inr [3, -1, -2]"
    "snub_transform tetra_env (reflections snub_state0) [1, -2, -3] [3] = Inr [3, -1, -2]"
    "snub_transform tetra_env (reflections snub_state0) [1, -2, -3] [1] = Inr [3, -1, -2]"
    unfolding eq R by (simp_all add: vecmat_def upt_conv_Cons)
  with len show ?thesis by (simp only: simp_thms)
qed

end
